theory Spec2Isabelle
  imports Complex_Main "HOL-Library.Word" "HOL-Library.Log_Nat"
begin

section \<open>Waterius ESP8266 firmware: remote configuration and wake cycle\<close>

text \<open>
  A shallow embedding of \<^verbatim>\<open>https_helpers.cpp\<close>, \<^verbatim>\<open>remote_config.cpp\<close>,
  \<^verbatim>\<open>ha/subscribe.cpp\<close>, \<^verbatim>\<open>senders/sender_waterius.h\<close>, \<^verbatim>\<open>senders/sender_http.h\<close>
  and \<^verbatim>\<open>main.cpp\<close>. Functions keep their C++ names. A function that mutates
  \<^verbatim>\<open>Settings &sett\<close> takes the settings and returns the new ones; what a function does
  to its collaborators (HTTP client, peripheral, EEPROM, logger) is returned as a list of
  events, in program order. A \<^verbatim>\<open>float\<close> or a \<^verbatim>\<open>double\<close> is held as the real number it
  stands for, and arithmetic on it rounds as IEEE 754 does.
\<close>

subsection \<open>Machine integers\<close>

type_synonym uint8_t = "8 word"
type_synonym uint16_t = "16 word"
type_synonym uint32_t = "32 word"
type_synonym int16_t = "16 word"

subsection \<open>ArduinoJson documents\<close>

text \<open>
  A parsed document maps member names to values. \<^verbatim>\<open>doc[key]\<close> of a missing member is
  the null variant, as the library has it, so \<^verbatim>\<open>doc[key].isNull()\<close> holds for a missing
  member and for a member whose value is \<^verbatim>\<open>null\<close>.
\<close>

datatype json =
  JNull
  | JBool bool
  | JInt int
  | JFloat real
  | JString string
  | JArray "json list"
  | JObject "(string \<times> json) list"

type_synonym JsonDocument = "string \<rightharpoonup> json"

definition getMember :: "JsonDocument \<Rightarrow> string \<Rightarrow> json" where
  "getMember doc key = (case doc key of None \<Rightarrow> JNull | Some v \<Rightarrow> v)"

definition isNull :: "json \<Rightarrow> bool" where
  "isNull v \<longleftrightarrow> v = JNull"

subsection \<open>Settings and the peripheral's data (setup.h, master\_i2c.h)\<close>

text \<open>
  The fields of \<^verbatim>\<open>Settings\<close> that the sources read or write. The header is not among
  the sources; where the sources use a field with a cast or a local of a fixed width
  (\<^verbatim>\<open>(uint8_t)0\<close>, \<^verbatim>\<open>(uint16_t)1\<close>, \<^verbatim>\<open>uint32_t imp\<close>, \<^verbatim>\<open>UINT16_MAX\<close>) the field has
  that width; a flag and a small counter is a byte. The field \<^verbatim>\<open>mask\<close> is named
  \<open>mask_addr\<close> here. The consumption deltas of \<^verbatim>\<open>CalculatedData\<close>, which the
  sources only compare with zero, are unsigned 32-bit integers.
\<close>

record Settings =
  channel0_start :: real
  channel1_start :: real
  serial0 :: string
  serial1 :: string
  counter0_name :: uint8_t
  counter1_name :: uint8_t
  factor0 :: uint16_t
  factor1 :: uint16_t
  impulses0_start :: uint32_t
  impulses0_previous :: uint32_t
  impulses1_start :: uint32_t
  impulses1_previous :: uint32_t
  wakeup_per_min :: uint16_t
  wake_on_consumption_only :: uint8_t
  wifi_ssid :: string
  wifi_password :: string
  mqtt_on :: uint8_t
  mqtt_host :: string
  mqtt_port :: uint16_t
  mqtt_login :: string
  mqtt_password :: string
  mqtt_topic :: string
  http_on :: uint8_t
  http_url :: string
  ntp_server :: string
  waterius_host :: string
  waterius_key :: string
  waterius_email :: string
  waterius_on :: uint8_t
  company :: string
  place :: string
  mqtt_auto_discovery :: uint8_t
  mqtt_discovery_topic :: string
  dhcp_off :: uint8_t
  ip :: uint32_t
  gateway :: uint32_t
  mask_addr :: uint32_t
  mdns_on :: uint8_t
  mode :: uint8_t
  config_restart_pending :: uint8_t
  setup_time :: uint32_t
  setup_finished_counter :: uint8_t
  wakeups_without_send :: uint16_t
  last_ntp_sync :: int
  ntp_error_counter :: uint8_t
  period_min_tuned :: uint16_t

record AttinyData =
  impulses0 :: uint32_t
  impulses1 :: uint32_t
  counter_type0 :: uint8_t
  counter_type1 :: uint8_t

record CalculatedData =
  delta0 :: uint32_t
  delta1 :: uint32_t

subsection \<open>HTTP client\<close>

text \<open>
  \<^verbatim>\<open>HTTPClient\<close> after \<^verbatim>\<open>POST\<close>: the declared Content-Length (\<^verbatim>\<open>getSize()\<close>, which is
  \<open>-1\<close> when the server sent none) and the body that \<^verbatim>\<open>getString()\<close> would read.
  The network is the list of the replies to come, one for each \<^verbatim>\<open>POST\<close>: the status
  code (negative when the connection failed) and the client's state after it. When the
  list is used up the connection fails.
\<close>

record HTTPClient =
  getSize :: int
  getString :: string

type_synonym network = "(int \<times> HTTPClient) list"

definition POST :: "network \<Rightarrow> (int \<times> HTTPClient) \<times> network" where
  "POST net = (case net of
      [] \<Rightarrow> ((- 1, \<lparr>getSize = - 1, getString = []\<rparr>), [])
    | reply # rest \<Rightarrow> (reply, rest))"

subsection \<open>Constants of setup.h, config.h, utils.h and master\_i2c.h\<close>

text \<open>
  The headers that define these macros and enumerators are not part of the sources at
  hand, so their values are parameters of the model. A buffer length is at least 1.
\<close>

record config_h =
  REMOTE_CONFIG_MAX_SIZE :: nat
  SERIAL_LEN :: nat
  WIFI_SSID_LEN :: nat
  WIFI_PWD_LEN :: nat
  HOST_LEN :: nat
  MQTT_LOGIN_LEN :: nat
  MQTT_PASSWORD_LEN :: nat
  MQTT_TOPIC_LEN :: nat
  WATERIUS_KEY_LEN :: nat
  EMAIL_LEN :: nat
  COMPANY_LEN :: nat
  PLACE_LEN :: nat
  COUNTER_NAME_MAX :: uint8_t
  NAMUR :: uint8_t
  ELECTRONIC :: uint8_t
  NONE :: uint8_t
  SETUP_MODE :: uint8_t
  TRANSMIT_MODE :: uint8_t
  MANUAL_TRANSMIT_MODE :: uint8_t
  PROTO_HTTP :: string
  PROTO_HTTPS :: string

subsection \<open>Library and firmware functions outside the sources\<close>

text \<open>
  The conversions of ArduinoJson (\<^verbatim>\<open>as<T>()\<close>, \<^verbatim>\<open>is<T>()\<close>, \<^verbatim>\<open>serializeJson\<close>,
  \<^verbatim>\<open>deserializeJson\<close>), the Arduino core (\<^verbatim>\<open>String::toInt\<close>, \<^verbatim>\<open>String::toFloat\<close>,
  \<^verbatim>\<open>IPAddress::fromString\<close>, \<^verbatim>\<open>HTTPClient::begin\<close>), the firmware's own helpers
  that are not among the sources (\<^verbatim>\<open>strncpy0\<close>, \<^verbatim>\<open>reset_period_min_tuned\<close>,
  \<^verbatim>\<open>get_proto\<close>, \<^verbatim>\<open>data_type_by_name\<close>) and the peripheral's answer to
  \<^verbatim>\<open>MasterI2C::setCountersType\<close> are parameters as well: a property proved for every
  \<open>P\<close> holds whatever these functions compute. \<open>toFloat\<close> and \<open>as_float\<close> give the
  number that the \<^verbatim>\<open>float\<close> they return stands for.
\<close>

record platform = config_h +
  as_String :: "json \<Rightarrow> string"
  as_bool :: "json \<Rightarrow> bool"
  as_float :: "json \<Rightarrow> real"
  as_uint8 :: "json \<Rightarrow> uint8_t"
  as_uint16 :: "json \<Rightarrow> uint16_t"
  as_uint32 :: "json \<Rightarrow> uint32_t"
  is_int :: "json \<Rightarrow> bool"
  is_float :: "json \<Rightarrow> bool"
  serializeJson :: "JsonDocument \<Rightarrow> string"
  deserializeJson :: "string \<Rightarrow> JsonDocument option"
  toInt :: "string \<Rightarrow> int"
  toFloat :: "string \<Rightarrow> real"
  IPAddress_fromString :: "string \<Rightarrow> uint32_t option"
  HTTPClient_begin :: "string \<Rightarrow> bool"
  strncpy0 :: "string \<Rightarrow> nat \<Rightarrow> string"
  reset_period_min_tuned :: "Settings \<Rightarrow> Settings"
  get_proto :: "string \<Rightarrow> string"
  data_type_by_name :: "int \<Rightarrow> uint8_t"
  setCountersType :: "uint8_t \<Rightarrow> uint8_t \<Rightarrow> bool"

subsection \<open>Events\<close>

text \<open>
  The log lines that tell one path of a function from another are events, named by the
  text of the \<^verbatim>\<open>LOG_INFO\<close> or \<^verbatim>\<open>LOG_ERROR\<close> call; the other log lines are left out.
  \<open>store_config s\<close> is a write of the settings \<open>s\<close> to the EEPROM.
\<close>

datatype event =
  LOG string
  | HTTP_POST string string
  | HTTP_getSize
  | HTTP_getString
  | I2C_setCountersType uint8_t uint8_t
  | I2C_setTransmitMode
  | I2C_setWakeUpPeriod uint16_t
  | I2C_setSleep
  | store_config Settings
  | wifi_shutdown
  | ESP_restart
  | ESP_deepSleep

text \<open>
  A function that does not return to its caller: \<^verbatim>\<open>ESP.restart()\<close>, or an operation
  whose behaviour C++ leaves undefined (a null client, a division by zero, a conversion
  of a float that does not fit \<^verbatim>\<open>int\<close>).
\<close>

datatype halt = Restart | Undefined

subsection \<open>https\_helpers.cpp\<close>

text \<open>
  \<^verbatim>\<open>validate_and_get_response\<close>. The argument \<open>out_response\<close> is what the caller's
  buffer held before the call; the second component of the result is the buffer after it.
\<close>

definition validate_and_get_response ::
  "'z config_h_scheme \<Rightarrow> HTTPClient \<Rightarrow> int \<Rightarrow> string \<Rightarrow> bool \<times> string \<times> event list" where
  "validate_and_get_response C httpClient response_code out_response =
     (if response_code \<noteq> 200 then
        (False, [], [LOG ''Response code is not 200''])
      else
        let content_length = getSize httpClient in
        if content_length \<le> 0 then
          (False, [], [HTTP_getSize, LOG ''Server did not provide Content-Length header''])
        else if nat content_length > REMOTE_CONFIG_MAX_SIZE C then
          (False, [], [HTTP_getSize, LOG ''Response too large''])
        else
          (True, getString httpClient, [HTTP_getSize, HTTP_getString]))"

subsection \<open>remote\_config.cpp\<close>

text \<open>\<^verbatim>\<open>String::endsWith\<close> and \<^verbatim>\<open>String::startsWith\<close>.\<close>

definition endsWith :: "string \<Rightarrow> string \<Rightarrow> bool" where
  "endsWith s x \<longleftrightarrow> length x \<le> length s \<and> drop (length s - length x) s = x"

definition startsWith :: "string \<Rightarrow> string \<Rightarrow> bool" where
  "startsWith s x \<longleftrightarrow> take (length x) s = x"

text \<open>\<^verbatim>\<open>validate_device_key\<close>: the result and the line it logs.\<close>

definition validate_device_key ::
  "'z platform_scheme \<Rightarrow> JsonDocument \<Rightarrow> string \<Rightarrow> bool \<times> event list" where
  "validate_device_key P config_json key =
     (if \<not> isNull (getMember config_json ''key'') then
        let server_key = as_String P (getMember config_json ''key'') in
        if server_key \<noteq> key then
          (False, [LOG ''RCFG: Authorization failed - key mismatch!''])
        else
          (True, [LOG ''RCFG: Authorization successful - key verified''])
      else
        (False, [LOG ''RCFG: Authorization failed - no key in server response'']))"

text \<open>
  \<^verbatim>\<open>fetch_config_from_server\<close>. The result is the returned flag, the document left in
  \<^verbatim>\<open>response_json\<close> (which the callers read only when the flag is true), the rest of the
  network and the events. With a protocol that is neither \<^verbatim>\<open>PROTO_HTTP\<close> nor
  \<^verbatim>\<open>PROTO_HTTPS\<close> the client pointer stays null and is dereferenced.
\<close>

definition fetch_config_from_server ::
  "'z platform_scheme \<Rightarrow> string \<Rightarrow> string \<Rightarrow> network
     \<Rightarrow> halt + (bool \<times> JsonDocument \<times> network \<times> event list)" where
  "fetch_config_from_server P url key net =
     (if key = [] then
        Inr (False, Map.empty, net, [LOG ''RCFG: Key is empty, skipping config fetch''])
      else
        let cfg_url = (if \<not> endsWith url ''/'' then url @ ''/'' else url) @ ''cfg'';
            request_json = [''key'' \<mapsto> JString key];
            payload = serializeJson P request_json;
            proto = get_proto P url
        in
        if proto \<noteq> PROTO_HTTP P \<and> proto \<noteq> PROTO_HTTPS P then Inl Undefined
        else if HTTPClient_begin P cfg_url then
          let reply = POST net;
              response_code = fst (fst reply);
              httpClient = snd (fst reply);
              validated = validate_and_get_response P httpClient response_code [];
              response_body = fst (snd validated);
              ev = [HTTP_POST cfg_url payload] @ snd (snd validated)
          in
          if fst validated then
            (case deserializeJson P response_body of
               None \<Rightarrow>
                 Inr (False, Map.empty, snd reply,
                      ev @ [LOG ''RCFG: Failed to parse JSON response''])
             | Some response_json \<Rightarrow>
                 Inr (True, response_json, snd reply,
                      ev @ [LOG ''RCFG: Configuration successfully received and parsed'']))
          else
            Inr (False, Map.empty, snd reply,
                 ev @ [LOG ''RCFG: Failed to get valid response from server''])
        else
          Inr (False, Map.empty, net, [LOG ''RCFG: Failed to connect to server'']))"

text \<open>
  The state of \<^verbatim>\<open>apply_config_from_server\<close>: the settings being updated, the local
  \<^verbatim>\<open>config_changed\<close> and the events so far.
\<close>

record merge =
  sett :: Settings
  config_changed :: bool
  events :: "event list"

text \<open>
  The macro \<^verbatim>\<open>APPLY_CFG_NUM(json, key, target, min_val, max_val, changed)\<close>. The target
  is given by its update function, \<open>as_T\<close> is \<^verbatim>\<open>as<decltype(target)>()\<close>.
\<close>

definition APPLY_CFG_NUM ::
  "JsonDocument \<Rightarrow> string \<Rightarrow> (json \<Rightarrow> 'a::linorder)
     \<Rightarrow> (('a \<Rightarrow> 'a) \<Rightarrow> Settings \<Rightarrow> Settings) \<Rightarrow> 'a \<Rightarrow> 'a \<Rightarrow> merge \<Rightarrow> merge" where
  "APPLY_CFG_NUM json key as_T target_update min_val max_val st =
     (if \<not> isNull (getMember json key) then
        let val = as_T (getMember json key) in
        if val \<ge> min_val \<and> val \<le> max_val then
          st\<lparr>sett := target_update (\<lambda>_. val) (sett st), config_changed := True\<rparr>
        else st
      else st)"

text \<open>
  The macro \<^verbatim>\<open>APPLY_CFG_STR(json, key, target, max_len, changed)\<close>. The comparison
  \<^verbatim>\<open>s.length() <= (max_len) - 1\<close> is between the length and a buffer size less one.
\<close>

definition APPLY_CFG_STR ::
  "'z platform_scheme \<Rightarrow> JsonDocument \<Rightarrow> string
     \<Rightarrow> ((string \<Rightarrow> string) \<Rightarrow> Settings \<Rightarrow> Settings) \<Rightarrow> nat \<Rightarrow> merge \<Rightarrow> merge" where
  "APPLY_CFG_STR P json key target_update max_len st =
     (if \<not> isNull (getMember json key) then
        let s = as_String P (getMember json key) in
        if int (length s) \<le> int max_len - 1 then
          st\<lparr>sett := target_update (\<lambda>_. strncpy0 P s max_len) (sett st),
             config_changed := True\<rparr>
        else st
      else st)"

text \<open>
  The blocks of \<^verbatim>\<open>apply_config_from_server\<close> that are written out in the source, one
  definition for each shape: a flag read with \<^verbatim>\<open>as<bool>()\<close>, an impulse count, an
  address read with \<^verbatim>\<open>IPAddress::fromString\<close>, the wake period and the pair of counter
  types.
\<close>

definition apply_flag ::
  "'z platform_scheme \<Rightarrow> JsonDocument \<Rightarrow> string
     \<Rightarrow> ((uint8_t \<Rightarrow> uint8_t) \<Rightarrow> Settings \<Rightarrow> Settings) \<Rightarrow> merge \<Rightarrow> merge" where
  "apply_flag P json key target_update st =
     (if \<not> isNull (getMember json key) then
        st\<lparr>sett := target_update (\<lambda>_. of_bool (as_bool P (getMember json key))) (sett st),
           config_changed := True\<rparr>
      else st)"

definition apply_impulses ::
  "'z platform_scheme \<Rightarrow> JsonDocument \<Rightarrow> string
     \<Rightarrow> ((uint32_t \<Rightarrow> uint32_t) \<Rightarrow> Settings \<Rightarrow> Settings)
     \<Rightarrow> ((uint32_t \<Rightarrow> uint32_t) \<Rightarrow> Settings \<Rightarrow> Settings) \<Rightarrow> merge \<Rightarrow> merge" where
  "apply_impulses P json key start_update previous_update st =
     (if \<not> isNull (getMember json key) then
        let imp = as_uint32 P (getMember json key) in
        st\<lparr>sett := start_update (\<lambda>_. imp) (previous_update (\<lambda>_. imp) (sett st)),
           config_changed := True\<rparr>
      else st)"

definition apply_address ::
  "'z platform_scheme \<Rightarrow> JsonDocument \<Rightarrow> string
     \<Rightarrow> ((uint32_t \<Rightarrow> uint32_t) \<Rightarrow> Settings \<Rightarrow> Settings) \<Rightarrow> merge \<Rightarrow> merge" where
  "apply_address P json key target_update st =
     (if \<not> isNull (getMember json key) then
        (case IPAddress_fromString P (as_String P (getMember json key)) of
           Some addr \<Rightarrow>
             st\<lparr>sett := target_update (\<lambda>_. addr) (sett st), config_changed := True\<rparr>
         | None \<Rightarrow> st)
      else st)"

definition apply_wakeup_per_min ::
  "'z platform_scheme \<Rightarrow> JsonDocument \<Rightarrow> merge \<Rightarrow> merge" where
  "apply_wakeup_per_min P json st =
     (if \<not> isNull (getMember json ''wakeup_per_min'') then
        let period = as_uint16 P (getMember json ''wakeup_per_min'') in
        if period \<ge> 1 \<and> period \<le> 1440 then
          st\<lparr>sett := reset_period_min_tuned P ((sett st)\<lparr>wakeup_per_min := period\<rparr>),
             config_changed := True\<rparr>
        else st
      else st)"

definition apply_counter_types ::
  "'z platform_scheme \<Rightarrow> JsonDocument \<Rightarrow> AttinyData \<Rightarrow> merge \<Rightarrow> merge" where
  "apply_counter_types P json data st =
     (let ct0_present = \<not> isNull (getMember json ''ctype0'');
          ct1_present = \<not> isNull (getMember json ''ctype1'')
      in
      if ct0_present \<or> ct1_present then
        let ct0 = (if ct0_present then as_uint8 P (getMember json ''ctype0'')
                   else counter_type0 data);
            ct1 = (if ct1_present then as_uint8 P (getMember json ''ctype1'')
                   else counter_type1 data);
            valid = ((ct0 = NAMUR P \<or> ct0 = ELECTRONIC P \<or> ct0 = NONE P) \<and>
                     (ct1 = NAMUR P \<or> ct1 = ELECTRONIC P \<or> ct1 = NONE P))
        in
        if valid then
          (if setCountersType P ct0 ct1 then
             st\<lparr>config_changed := True,
                events := events st @ [I2C_setCountersType ct0 ct1]\<rparr>
           else
             st\<lparr>events := events st @ [I2C_setCountersType ct0 ct1]\<rparr>)
        else
          st\<lparr>events := events st @ [LOG ''RCFG: bad ctype'']\<rparr>
      else st)"

text \<open>A block guarded by a flag of the settings: \<^verbatim>\<open>if(sett.mqtt_on) { ... }\<close>.\<close>

definition run :: "(merge \<Rightarrow> merge) list \<Rightarrow> merge \<Rightarrow> merge" where
  "run steps st = fold (\<lambda>step. step) steps st"

definition when_flag :: "(Settings \<Rightarrow> uint8_t) \<Rightarrow> (merge \<Rightarrow> merge) list \<Rightarrow> merge \<Rightarrow> merge" where
  "when_flag flag steps st = (if flag (sett st) \<noteq> 0 then run steps st else st)"

text \<open>The statements of \<^verbatim>\<open>apply_config_from_server\<close>, in the order of the source.\<close>

definition config_steps ::
  "'z platform_scheme \<Rightarrow> JsonDocument \<Rightarrow> AttinyData \<Rightarrow> (merge \<Rightarrow> merge) list" where
  "config_steps P config_json data =
     [APPLY_CFG_NUM config_json ''channel0'' (as_float P) channel0_start_update 0 999999,
      APPLY_CFG_NUM config_json ''channel1'' (as_float P) channel1_start_update 0 999999,
      APPLY_CFG_STR P config_json ''serial0'' serial0_update (SERIAL_LEN P),
      APPLY_CFG_STR P config_json ''serial1'' serial1_update (SERIAL_LEN P),
      APPLY_CFG_NUM config_json ''cname0'' (as_uint8 P) counter0_name_update 0
        (COUNTER_NAME_MAX P),
      APPLY_CFG_NUM config_json ''cname1'' (as_uint8 P) counter1_name_update 0
        (COUNTER_NAME_MAX P),
      APPLY_CFG_NUM config_json ''factor0'' (as_uint16 P) factor0_update 1 10000,
      APPLY_CFG_NUM config_json ''factor1'' (as_uint16 P) factor1_update 1 10000,
      apply_impulses P config_json ''impulses0'' impulses0_start_update
        impulses0_previous_update,
      apply_impulses P config_json ''impulses1'' impulses1_start_update
        impulses1_previous_update,
      apply_counter_types P config_json data,
      apply_wakeup_per_min P config_json,
      APPLY_CFG_NUM config_json ''wake_on_consumption_only'' (as_uint8 P)
        wake_on_consumption_only_update 0 1,
      APPLY_CFG_STR P config_json ''ssid'' wifi_ssid_update (WIFI_SSID_LEN P),
      APPLY_CFG_STR P config_json ''password'' wifi_password_update (WIFI_PWD_LEN P),
      apply_flag P config_json ''mqtt_on'' mqtt_on_update,
      when_flag mqtt_on
        [APPLY_CFG_STR P config_json ''mqtt_host'' mqtt_host_update (HOST_LEN P),
         APPLY_CFG_NUM config_json ''mqtt_port'' (as_uint16 P) mqtt_port_update 1 65535,
         APPLY_CFG_STR P config_json ''mqtt_login'' mqtt_login_update (MQTT_LOGIN_LEN P),
         APPLY_CFG_STR P config_json ''mqtt_password'' mqtt_password_update
           (MQTT_PASSWORD_LEN P),
         APPLY_CFG_STR P config_json ''mqtt_topic'' mqtt_topic_update (MQTT_TOPIC_LEN P)],
      apply_flag P config_json ''http_on'' http_on_update,
      when_flag http_on
        [APPLY_CFG_STR P config_json ''http_url'' http_url_update (HOST_LEN P)],
      APPLY_CFG_STR P config_json ''ntp_server'' ntp_server_update (HOST_LEN P),
      APPLY_CFG_STR P config_json ''waterius_host'' waterius_host_update (HOST_LEN P),
      APPLY_CFG_STR P config_json ''waterius_key'' waterius_key_update (WATERIUS_KEY_LEN P),
      APPLY_CFG_STR P config_json ''waterius_email'' waterius_email_update (EMAIL_LEN P),
      apply_flag P config_json ''waterius_on'' waterius_on_update,
      APPLY_CFG_STR P config_json ''company'' company_update (COMPANY_LEN P),
      APPLY_CFG_STR P config_json ''place'' place_update (PLACE_LEN P),
      apply_flag P config_json ''mqtt_auto_discovery'' mqtt_auto_discovery_update,
      APPLY_CFG_STR P config_json ''mqtt_discovery_topic'' mqtt_discovery_topic_update
        (MQTT_TOPIC_LEN P),
      apply_flag P config_json ''dhcp_off'' dhcp_off_update,
      when_flag dhcp_off
        [apply_address P config_json ''static_ip'' ip_update,
         apply_address P config_json ''gateway'' gateway_update,
         apply_address P config_json ''mask'' mask_addr_update],
      apply_flag P config_json ''mdns_on'' mdns_on_update]"

text \<open>
  \<^verbatim>\<open>apply_config_from_server\<close>: the returned \<^verbatim>\<open>config_changed\<close>, the settings after
  the call and the events.
\<close>

definition apply_config_from_server ::
  "'z platform_scheme \<Rightarrow> Settings \<Rightarrow> JsonDocument \<Rightarrow> AttinyData
     \<Rightarrow> bool \<times> Settings \<times> event list" where
  "apply_config_from_server P sett0 config_json data =
     (let st = run (config_steps P config_json data)
                 \<lparr>sett = sett0, config_changed = False,
                  events = [LOG ''RCFG: Applying config...'']\<rparr>
      in (config_changed st, sett st, events st))"

text \<open>
  \<^verbatim>\<open>fetch_and_apply_remote_config\<close>: the returned flag, the settings, the rest of the
  network and the events.
\<close>

definition fetch_and_apply_remote_config ::
  "'z platform_scheme \<Rightarrow> string \<Rightarrow> string \<Rightarrow> Settings \<Rightarrow> AttinyData \<Rightarrow> network
     \<Rightarrow> halt + (bool \<times> Settings \<times> network \<times> event list)" where
  "fetch_and_apply_remote_config P url key sett0 data net =
     (case fetch_config_from_server P url key net of
        Inl h \<Rightarrow> Inl h
      | Inr (fetched, config_json, net', ev) \<Rightarrow>
          if \<not> fetched then
            Inr (False, sett0, net', ev @ [LOG ''RCFG: fetch failed''])
          else
            let auth = validate_device_key P config_json key in
            if \<not> fst auth then Inr (False, sett0, net', ev @ snd auth)
            else
              let applied = apply_config_from_server P sett0 config_json data;
                  sett1 = fst (snd applied);
                  ev1 = ev @ snd auth @ snd (snd applied)
              in
              if fst applied then
                Inr (True, sett1, net', ev1 @ [store_config sett1])
              else
                Inr (False, sett1, net', ev1 @ [LOG ''RCFG: no changes'']))"

text \<open>\<^verbatim>\<open>apply_config_from_response\<close>: the returned flag, the settings and the events.\<close>

definition apply_config_from_response ::
  "'z platform_scheme \<Rightarrow> string \<Rightarrow> string \<Rightarrow> Settings \<Rightarrow> AttinyData
     \<Rightarrow> bool \<times> Settings \<times> event list" where
  "apply_config_from_response P response_body key sett0 data =
     (if length response_body < 10 then
        (False, sett0, [LOG ''RCFG: Response too short, no configuration''])
      else if length response_body > REMOTE_CONFIG_MAX_SIZE P then
        (False, sett0, [LOG ''RCFG: Response too large''])
      else if \<not> startsWith response_body ''{'' \<and> \<not> startsWith response_body ''['' then
        (False, sett0, [LOG ''RCFG: Response is not JSON, no configuration''])
      else
        (case deserializeJson P response_body of
           None \<Rightarrow> (False, sett0, [LOG ''RCFG: parse err''])
         | Some config_json \<Rightarrow>
             let auth = validate_device_key P config_json key in
             if \<not> fst auth then (False, sett0, snd auth)
             else
               let applied = apply_config_from_server P sett0 config_json data;
                   sett1 = fst (snd applied);
                   ev1 = snd auth @ [LOG ''RCFG: cfg in response''] @ snd (snd applied)
               in
               if fst applied then (True, sett1, ev1 @ [store_config sett1])
               else (False, sett1, ev1 @ [LOG ''RCFG: no changes''])))"

subsection \<open>ha/subscribe.cpp\<close>

text \<open>
  \<^verbatim>\<open>String::lastIndexOf(ch, fromIndex)\<close> and \<^verbatim>\<open>String::substring(left, right)\<close> of the
  Arduino core. \<open>fromIndex\<close> is an \<^verbatim>\<open>unsigned int\<close>: a negative argument is a huge one,
  beyond the end of the string, and the answer is \<open>-1\<close>.
\<close>

fun last_occurrence :: "char \<Rightarrow> string \<Rightarrow> nat \<Rightarrow> int \<Rightarrow> int" where
  "last_occurrence ch [] i found = found"
| "last_occurrence ch (c # cs) i found =
     last_occurrence ch cs (Suc i) (if c = ch then int i else found)"

definition lastIndexOf :: "string \<Rightarrow> char \<Rightarrow> int \<Rightarrow> int" where
  "lastIndexOf s ch fromIndex =
     (if fromIndex < 0 \<or> fromIndex \<ge> int (length s) then - 1
      else last_occurrence ch (take (nat fromIndex + 1) s) 0 (- 1))"

definition substring :: "string \<Rightarrow> nat \<Rightarrow> nat \<Rightarrow> string" where
  "substring s left right =
     (let l = (if left > right then right else left);
          r = (if left > right then left else right)
      in if l \<ge> length s then [] else take (min r (length s) - l) (drop l s))"

text \<open>
  Floating-point arithmetic. The result of an operation is the exact result rounded to the
  nearest number of the format, a tie going to the even significand. A format has \<open>p\<close>
  bits of significand and the least exponent \<open>emin\<close>: a number \<open>x\<close> with
  \<open>2 ^ e \<le> \<bar>x\<bar> < 2 ^ (e + 1)\<close> is rounded to a multiple of \<open>2 ^ (e - p + 1)\<close>, and one
  below \<open>2 ^ emin\<close> to a multiple of \<open>2 ^ (emin - p + 1)\<close>. \<open>binade x\<close> is that \<open>e\<close> for a
  positive \<open>x\<close>, and \<open>scale2 x k\<close> is \<open>x * 2 ^ k\<close>. \<^verbatim>\<open>float\<close> is binary32 and
  \<^verbatim>\<open>double\<close> is binary64. A rounded result of magnitude \<open>2 ^ 128\<close> or more is not a
  finite \<^verbatim>\<open>float\<close>: the operation gives an infinity.
\<close>

definition round_ties_even :: "real \<Rightarrow> int" where
  "round_ties_even r =
     (let f = \<lfloor>r\<rfloor> in
      if r - of_int f < 1 / 2 then f
      else if r - of_int f > 1 / 2 then f + 1
      else if even f then f else f + 1)"

definition binade :: "real \<Rightarrow> int" where
  "binade x = (if 1 \<le> x then bitlen \<lfloor>x\<rfloor> - 1 else - bitlen (\<lceil>1 / x\<rceil> - 1))"

definition scale2 :: "real \<Rightarrow> int \<Rightarrow> real" where
  "scale2 x k = (if 0 \<le> k then x * 2 ^ nat k else x / 2 ^ nat (- k))"

definition round_binary :: "nat \<Rightarrow> int \<Rightarrow> real \<Rightarrow> real" where
  "round_binary p emin x =
     (if x = 0 then 0
      else let k = max (binade \<bar>x\<bar>) emin - int p + 1
           in scale2 (of_int (round_ties_even (scale2 x (- k)))) k)"

definition binary32 :: "real \<Rightarrow> real" where
  "binary32 x = round_binary 24 (- 126) x"

definition finite32 :: "real \<Rightarrow> bool" where
  "finite32 x \<longleftrightarrow> \<bar>x\<bar> < 2 ^ 128"

definition binary64 :: "real \<Rightarrow> real" where
  "binary64 x = round_binary 53 (- 1022) x"

text \<open>
  The conversion \<^verbatim>\<open>(int)x\<close> of a float: towards zero, and undefined when the value does
  not fit.
\<close>

definition float_to_int :: "real \<Rightarrow> int option" where
  "float_to_int x =
     (if - (2 ^ 31) - 1 < x \<and> x < 2 ^ 31 then Some (if 0 \<le> x then \<lfloor>x\<rfloor> else \<lceil>x\<rceil>)
      else None)"

text \<open>
  \<^verbatim>\<open>MqttCounterContext\<close>: the counter types of the MQTT session, \<open>-1\<close> while not
  initialised. \<^verbatim>\<open>int16_t\<close> is a 16-bit word read as a signed number.
\<close>

record MqttCounterContext =
  ctype0 :: int16_t
  ctype1 :: int16_t

definition MqttCounterContext_init :: "MqttCounterContext \<Rightarrow> AttinyData \<Rightarrow> MqttCounterContext" where
  "MqttCounterContext_init ctx data =
     (let ctx = (if sint (ctype0 ctx) < 0 then ctx\<lparr>ctype0 := ucast (counter_type0 data)\<rparr>
                 else ctx);
          ctx = (if sint (ctype1 ctx) < 0 then ctx\<lparr>ctype1 := ucast (counter_type1 data)\<rparr>
                 else ctx)
      in ctx)"

definition MqttCounterContext_reset :: "MqttCounterContext \<Rightarrow> MqttCounterContext" where
  "MqttCounterContext_reset ctx = ctx\<lparr>ctype0 := - 1, ctype1 := - 1\<rparr>"

text \<open>
  What \<^verbatim>\<open>update_settings\<close> reads and writes: the settings, the JSON data of the cycle,
  the static \<^verbatim>\<open>mqtt_ctx\<close>, and the calls it makes on the global \<^verbatim>\<open>masterI2C\<close>.
\<close>

record subscriber =
  s_sett :: Settings
  json_data :: JsonDocument
  mqtt_ctx :: MqttCounterContext
  calls :: "event list"

text \<open>
  \<^verbatim>\<open>update_settings\<close>: the returned \<^verbatim>\<open>updated\<close> and the state after the call. The
  locals \<^verbatim>\<open>ctype0\<close> and \<^verbatim>\<open>ctype1\<close> are named \<open>ct0\<close> and \<open>ct1\<close>. In
  \<^verbatim>\<open>(int)(ch0 * 1000 + 5) / 1000.0\<close> the product and the sum are operations on
  \<^verbatim>\<open>float\<close> (\<open>scaled\<close> and \<open>biased\<close>), the conversion to \<^verbatim>\<open>int\<close> of an infinity or of a
  value that does not fit is undefined, and the quotient is a \<^verbatim>\<open>double\<close>, finite since
  the dividend is an \<^verbatim>\<open>int\<close>.
\<close>

definition update_settings ::
  "'z platform_scheme \<Rightarrow> string \<Rightarrow> string \<Rightarrow> AttinyData \<Rightarrow> subscriber
     \<Rightarrow> halt + (bool \<times> subscriber)" where
  "update_settings P topic payload data w0 =
     (let w = w0\<lparr>mqtt_ctx := MqttCounterContext_init (mqtt_ctx w0) data\<rparr> in
      if endsWith topic ''/set'' then
        let endslash = lastIndexOf topic CHR ''/'' (int (length topic) - 1);
            prevslash = lastIndexOf topic CHR ''/'' (endslash - 1);
            param = substring topic (nat (prevslash + 1)) (nat endslash)
        in
        if param = ''period_min'' then
          (let period_min = toInt P payload in
           if period_min > 0 then
             if uint (wakeup_per_min (s_sett w)) \<noteq> period_min then
               let w = w\<lparr>s_sett := reset_period_min_tuned P
                         ((s_sett w)\<lparr>wakeup_per_min := of_int period_min\<rparr>)\<rparr>
               in
               if is_int P (getMember (json_data w) ''period_min'') then
                 Inr (True, w\<lparr>json_data := (json_data w)(''period_min'' \<mapsto> JInt period_min)\<rparr>)
               else Inr (False, w)
             else Inr (False, w)
           else Inr (False, w))
        else if param = ''f0'' then
          (let f0 = toInt P payload in
           if f0 > 0 then
             if uint (factor0 (s_sett w)) \<noteq> f0 then
               let w = w\<lparr>s_sett := (s_sett w)\<lparr>factor0 := of_int f0\<rparr>\<rparr>;
                   has = is_int P (getMember (json_data w) ''f0'');
                   w = (if has then w\<lparr>json_data := (json_data w)(''f0'' \<mapsto> JInt f0)\<rparr> else w)
               in Inr (has, w\<lparr>s_sett := (s_sett w)\<lparr>setup_time := 0\<rparr>\<rparr>)
             else Inr (False, w)
           else Inr (False, w))
        else if param = ''f1'' then
          (let f1 = toInt P payload in
           if f1 > 0 then
             if uint (factor1 (s_sett w)) \<noteq> f1 then
               let w = w\<lparr>s_sett := (s_sett w)\<lparr>factor1 := of_int f1\<rparr>\<rparr>;
                   has = is_int P (getMember (json_data w) ''f1'');
                   w = (if has then w\<lparr>json_data := (json_data w)(''f1'' \<mapsto> JInt f1)\<rparr> else w)
               in Inr (has, w\<lparr>s_sett := (s_sett w)\<lparr>setup_time := 0\<rparr>\<rparr>)
             else Inr (False, w)
           else Inr (False, w))
        else if param = ''ch0'' then
          (let ch0 = toFloat P payload in
           if ch0 \<ge> 0 then
             let w = w\<lparr>s_sett := (s_sett w)\<lparr>channel0_start := ch0,
                                            impulses0_start := impulses0 data\<rparr>\<rparr>
             in
             if is_float P (getMember (json_data w) ''ch0'') then
               (let scaled = binary32 (ch0 * 1000);
                    biased = binary32 (scaled + 5)
                in
                if finite32 scaled \<and> finite32 biased then
                  (case float_to_int biased of
                     None \<Rightarrow> Inl Undefined
                   | Some n \<Rightarrow>
                       Inr (True,
                            w\<lparr>json_data := (json_data w)
                                 (''ch0'' \<mapsto> JFloat (binary64 (real_of_int n / 1000))),
                              s_sett := (s_sett w)\<lparr>setup_time := 0\<rparr>\<rparr>))
                else Inl Undefined)
             else Inr (True, w\<lparr>s_sett := (s_sett w)\<lparr>setup_time := 0\<rparr>\<rparr>)
           else Inr (False, w))
        else if param = ''ch1'' then
          (let ch1 = toFloat P payload in
           if ch1 \<ge> 0 then
             let w = w\<lparr>s_sett := (s_sett w)\<lparr>channel1_start := ch1,
                                            impulses1_start := impulses1 data\<rparr>\<rparr>
             in
             if is_float P (getMember (json_data w) ''ch1'') then
               (let scaled = binary32 (ch1 * 1000);
                    biased = binary32 (scaled + 5)
                in
                if finite32 scaled \<and> finite32 biased then
                  (case float_to_int biased of
                     None \<Rightarrow> Inl Undefined
                   | Some n \<Rightarrow>
                       Inr (True,
                            w\<lparr>json_data := (json_data w)
                                 (''ch1'' \<mapsto> JFloat (binary64 (real_of_int n / 1000))),
                              s_sett := (s_sett w)\<lparr>setup_time := 0\<rparr>\<rparr>))
                else Inl Undefined)
             else Inr (True, w\<lparr>s_sett := (s_sett w)\<lparr>setup_time := 0\<rparr>\<rparr>)
           else Inr (False, w))
        else if param = ''cname0'' then
          (let cname0 = toInt P payload in
           if uint (counter0_name (s_sett w)) \<noteq> cname0 then
             let w = w\<lparr>s_sett := (s_sett w)\<lparr>counter0_name := of_int cname0\<rparr>\<rparr>;
                 has = is_int P (getMember (json_data w) ''cname0'');
                 w = (if has then w\<lparr>json_data := (json_data w)(''cname0'' \<mapsto> JInt cname0)\<rparr>
                      else w);
                 has_type = is_int P (getMember (json_data w) ''data_type0'');
                 w = (if has_type then
                        w\<lparr>json_data := (json_data w)
                            (''data_type0'' \<mapsto> JInt (uint (data_type_by_name P cname0)))\<rparr>
                      else w)
             in Inr (has \<or> has_type, w\<lparr>s_sett := (s_sett w)\<lparr>setup_time := 0\<rparr>\<rparr>)
           else Inr (False, w))
        else if param = ''cname1'' then
          (let cname1 = toInt P payload in
           if uint (counter1_name (s_sett w)) \<noteq> cname1 then
             let w = w\<lparr>s_sett := (s_sett w)\<lparr>counter1_name := of_int cname1\<rparr>\<rparr>;
                 has = is_int P (getMember (json_data w) ''cname1'');
                 w = (if has then w\<lparr>json_data := (json_data w)(''cname1'' \<mapsto> JInt cname1)\<rparr>
                      else w);
                 has_type = is_int P (getMember (json_data w) ''data_type1'');
                 w = (if has_type then
                        w\<lparr>json_data := (json_data w)
                            (''data_type1'' \<mapsto> JInt (uint (data_type_by_name P cname1)))\<rparr>
                      else w)
             in Inr (has \<or> has_type, w\<lparr>s_sett := (s_sett w)\<lparr>setup_time := 0\<rparr>\<rparr>)
           else Inr (False, w))
        else if param = ''ctype0'' then
          (let ct0 = toInt P payload in
           if sint (ctype0 (mqtt_ctx w)) \<noteq> ct0 then
             let pair_ok = setCountersType P (of_int ct0) (ucast (ctype1 (mqtt_ctx w)));
                 w = w\<lparr>calls := calls w
                        @ [I2C_setCountersType (of_int ct0) (ucast (ctype1 (mqtt_ctx w)))]\<rparr>;
                 w = (if pair_ok then
                        let w = w\<lparr>mqtt_ctx := (mqtt_ctx w)\<lparr>ctype0 := of_int ct0\<rparr>\<rparr> in
                        if is_int P (getMember (json_data w) ''ctype0'')
                        then w\<lparr>json_data := (json_data w)(''ctype0'' \<mapsto> JInt ct0)\<rparr> else w
                      else w)
             in Inr (pair_ok, w\<lparr>s_sett := (s_sett w)\<lparr>setup_time := 0\<rparr>\<rparr>)
           else Inr (False, w))
        else if param = ''ctype1'' then
          (let ct1 = toInt P payload in
           if sint (ctype1 (mqtt_ctx w)) \<noteq> ct1 then
             let pair_ok = setCountersType P (ucast (ctype0 (mqtt_ctx w))) (of_int ct1);
                 w = w\<lparr>calls := calls w
                        @ [I2C_setCountersType (ucast (ctype0 (mqtt_ctx w))) (of_int ct1)]\<rparr>;
                 w = (if pair_ok then
                        let w = w\<lparr>mqtt_ctx := (mqtt_ctx w)\<lparr>ctype1 := of_int ct1\<rparr>\<rparr> in
                        if is_int P (getMember (json_data w) ''ctype1'')
                        then w\<lparr>json_data := (json_data w)(''ctype1'' \<mapsto> JInt ct1)\<rparr> else w
                      else w)
             in Inr (pair_ok, w\<lparr>s_sett := (s_sett w)\<lparr>setup_time := 0\<rparr>\<rparr>)
           else Inr (False, w))
        else Inr (False, w)
      else Inr (False, w))"

subsection \<open>Firmware functions and devices that main.cpp and the senders call\<close>

text \<open>
  None of these is among the sources, so each is a parameter: what the peripheral
  answers, what the EEPROM holds, whether Wi-Fi connects, the clock, and the firmware's
  functions that take \<^verbatim>\<open>Settings &sett\<close> and may change it. \<open>load_config\<close> maps the
  stored settings to the returned flag and the settings in memory afterwards. The events
  of a cycle are those of the sources modelled here; what these functions do to the
  outside is not recorded. The build has MQTT, HTTP and the Waterius cloud enabled.
\<close>

record board =
  getMode :: "uint8_t option"
  getAttinyData :: "AttinyData option"
  load_config :: "Settings \<Rightarrow> bool \<times> Settings"
  calculate_values :: "Settings \<Rightarrow> AttinyData \<Rightarrow> Settings \<times> CalculatedData"
  start_active_point :: "Settings \<Rightarrow> CalculatedData \<Rightarrow> Settings"
  millis :: uint32_t
  wifi_connect :: "Settings \<Rightarrow> bool \<times> Settings"
  is_mqtt :: "Settings \<Rightarrow> bool"
  connect_and_subscribe_mqtt ::
    "Settings \<Rightarrow> AttinyData \<Rightarrow> CalculatedData \<Rightarrow> Settings \<times> JsonDocument"
  is_https :: "string \<Rightarrow> bool"
  time_now :: int
  time_synced :: int
  is_valid_time :: "int \<Rightarrow> bool"
  sync_ntp_time :: "Settings \<Rightarrow> bool \<times> Settings"
  get_json_data :: "Settings \<Rightarrow> AttinyData \<Rightarrow> CalculatedData \<Rightarrow> JsonDocument \<Rightarrow> JsonDocument"
  is_waterius_site :: "Settings \<Rightarrow> bool"
  send_mqtt :: "Settings \<Rightarrow> JsonDocument \<Rightarrow> bool"
  update_config :: "Settings \<Rightarrow> AttinyData \<Rightarrow> CalculatedData \<Rightarrow> Settings"
  setWakeUpPeriod :: "uint16_t \<Rightarrow> bool"
  getFlashChipVendorId :: uint8_t

subsection \<open>https\_helpers.cpp: post\_data\<close>

text \<open>
  \<^verbatim>\<open>post_data\<close>. \<open>response\<close> is \<open>None\<close> for a null pointer and otherwise the content
  of the caller's string, before the call in the argument and after it in the result.
\<close>

definition post_data ::
  "'z platform_scheme \<Rightarrow> string \<Rightarrow> string \<Rightarrow> string \<Rightarrow> string \<Rightarrow> string option \<Rightarrow> network
     \<Rightarrow> halt + (bool \<times> string option \<times> network \<times> event list)" where
  "post_data P url key email payload response net =
     (let proto = get_proto P url in
      if proto \<noteq> PROTO_HTTP P \<and> proto \<noteq> PROTO_HTTPS P then Inl Undefined
      else if HTTPClient_begin P url then
        let reply = POST net;
            response_code = fst (fst reply);
            httpClient = snd (fst reply);
            result = (response_code = 200)
        in
        (case response of
           Some old \<Rightarrow>
             let validated = validate_and_get_response P httpClient response_code old in
             Inr (result, Some (fst (snd validated)), snd reply,
                  [HTTP_POST url payload] @ snd (snd validated))
         | None \<Rightarrow>
             Inr (result, None, snd reply, [HTTP_POST url payload, HTTP_getString]))
      else Inr (False, response, net, []))"

subsection \<open>senders/sender\_waterius.h and senders/sender\_http.h\<close>

text \<open>
  The loop \<^verbatim>\<open>do { result = post_data(...); } while (!result && --attempts);\<close> with
  \<open>attempts\<close> the value of the counter before the call. It starts at
  \<^verbatim>\<open>HTTP_SEND_ATTEMPTS\<close>, which is 3, and never enters with 0.
\<close>

fun post_attempts ::
  "'z platform_scheme \<Rightarrow> nat \<Rightarrow> string \<Rightarrow> string \<Rightarrow> string \<Rightarrow> string \<Rightarrow> string \<Rightarrow> network
     \<Rightarrow> event list \<Rightarrow> halt + (bool \<times> string \<times> network \<times> event list)" where
  "post_attempts P 0 url key email payload response_body net ev =
     Inr (False, response_body, net, ev)"
| "post_attempts P (Suc attempts) url key email payload response_body net ev =
     (case post_data P url key email payload (Some response_body) net of
        Inl h \<Rightarrow> Inl h
      | Inr (result, response, net', ev') \<Rightarrow>
          let body = (case response of Some b \<Rightarrow> b | None \<Rightarrow> response_body) in
          if \<not> result \<and> attempts \<noteq> 0 then
            post_attempts P attempts url key email payload body net' (ev @ ev')
          else Inr (result, body, net', ev @ ev'))"

definition HTTP_SEND_ATTEMPTS :: nat where
  "HTTP_SEND_ATTEMPTS = 3"

text \<open>
  What \<^verbatim>\<open>send_waterius\<close> and \<^verbatim>\<open>send_http\<close> do once their guard has passed; the two
  differ in the address and in the prefix of their log lines. The result is the returned
  flag, or the halt when the function restarts the device, with the settings, the rest
  of the network and the events.
\<close>

definition send_and_check ::
  "'z platform_scheme \<Rightarrow> string \<Rightarrow> string \<Rightarrow> Settings \<Rightarrow> JsonDocument \<Rightarrow> AttinyData \<Rightarrow> network
     \<Rightarrow> (halt + bool) \<times> Settings \<times> network \<times> event list" where
  "send_and_check P prefix url sett0 jsonData data net =
     (case post_attempts P HTTP_SEND_ATTEMPTS url (waterius_key sett0) (waterius_email sett0)
             (serializeJson P jsonData) [] net [] of
        Inl h \<Rightarrow> (Inl h, sett0, net, [])
      | Inr (result, response_body, net', ev) \<Rightarrow>
          if result then
            if config_restart_pending sett0 = 0 then
              let applied =
                    apply_config_from_response P response_body (waterius_key sett0) sett0 data;
                  sett1 = fst (snd applied);
                  ev1 = ev @ [LOG (prefix @ '': Checking response for configuration...'')]
                           @ snd (snd applied)
              in
              if fst applied then
                let sett2 = sett1\<lparr>config_restart_pending := 1\<rparr> in
                (Inl Restart, sett2, net',
                 ev1 @ [store_config sett2, wifi_shutdown, ESP_restart])
              else (Inr True, sett1, net', ev1)
            else
              (Inr True, sett0, net',
               ev @ [LOG (prefix @ '': Skipping config check (restart after config change)'')])
          else (Inr False, sett0, net', ev @ [LOG (prefix @ '': Failed send data'')]))"

definition send_waterius ::
  "'z platform_scheme \<Rightarrow> board \<Rightarrow> Settings \<Rightarrow> JsonDocument \<Rightarrow> AttinyData \<Rightarrow> network
     \<Rightarrow> (halt + bool) \<times> Settings \<times> network \<times> event list" where
  "send_waterius P E sett0 jsonData data net =
     (if \<not> is_waterius_site E sett0 then (Inr False, sett0, net, [LOG ''WATR: SKIP''])
      else send_and_check P ''WATR'' (waterius_host sett0) sett0 jsonData data net)"

definition send_http ::
  "'z platform_scheme \<Rightarrow> Settings \<Rightarrow> JsonDocument \<Rightarrow> AttinyData \<Rightarrow> network
     \<Rightarrow> (halt + bool) \<times> Settings \<times> network \<times> event list" where
  "send_http P sett0 jsonData data net =
     (if \<not> (http_on sett0 \<noteq> 0 \<and> http_url sett0 \<noteq> []) then
        (Inr False, sett0, net, [LOG ''HTTP: SKIP''])
      else send_and_check P ''HTTP'' (http_url sett0) sett0 jsonData data net)"

subsection \<open>main.cpp\<close>

text \<open>
  The block of \<^verbatim>\<open>loop\<close> for the mode "only on consumption": the new
  \<^verbatim>\<open>skip_transmission\<close> and the settings. The division
  \<^verbatim>\<open>(24 * 60) / sett.wakeup_per_min\<close> is undefined for a period of 0.
\<close>

definition wake_on_consumption_check ::
  "'z config_h_scheme \<Rightarrow> bool \<Rightarrow> uint8_t \<Rightarrow> Settings \<Rightarrow> AttinyData \<Rightarrow> CalculatedData
     \<Rightarrow> halt + (bool \<times> Settings)" where
  "wake_on_consumption_check P config_loaded wake_mode sett0 data cdata =
     (if config_loaded \<and> wake_on_consumption_only sett0 \<noteq> 0 \<and> wake_mode = TRANSMIT_MODE P then
        if wakeup_per_min sett0 = 0 then Inl Undefined
        else
          let has_consumption = (delta0 cdata > 0 \<or> delta1 cdata > 0);
              quotient = (24 * 60) div uint (wakeup_per_min sett0);
              max_wakeups = (of_int quotient :: uint16_t);
              max_wakeups_before_heartbeat = (if max_wakeups = 0 then 1 else max_wakeups);
              heartbeat_needed = (wakeups_without_send sett0 \<ge> max_wakeups_before_heartbeat)
          in
          if \<not> has_consumption \<and> \<not> heartbeat_needed then
            Inr (True,
                 sett0\<lparr>impulses0_previous := impulses0 data,
                       impulses1_previous := impulses1 data,
                       wakeups_without_send :=
                         (if wakeups_without_send sett0 < 65535
                          then wakeups_without_send sett0 + 1
                          else wakeups_without_send sett0)\<rparr>)
          else Inr (False, sett0)
      else Inr (False, sett0))"

text \<open>The block that synchronises the clock.\<close>

definition ntp_sync :: "'z config_h_scheme \<Rightarrow> board \<Rightarrow> uint8_t \<Rightarrow> Settings \<Rightarrow> Settings" where
  "ntp_sync P E wake_mode sett0 =
     (if is_mqtt E sett0 \<or> is_https E (waterius_host sett0) \<or> is_https E (http_url sett0) then
        let now = time_now E;
            need_sync =
              (if \<not> is_valid_time E now then True
               else if \<not> is_valid_time E (last_ntp_sync sett0) then True
               else if real_of_int (now - last_ntp_sync sett0) > 7 * 24 * 60 * 60 then True
               else if wake_mode = MANUAL_TRANSMIT_MODE P then True
               else False)
        in
        if need_sync then
          let synced = sync_ntp_time E sett0 in
          if fst synced then (snd synced)\<lparr>last_ntp_sync := time_synced E\<rparr>
          else (snd synced)\<lparr>ntp_error_counter := ntp_error_counter (snd synced) + 1\<rparr>
        else sett0
      else sett0)"

text \<open>The block that asks the server for a configuration on a manual wake.\<close>

definition fetch_cfg_on_manual_wake ::
  "'z platform_scheme \<Rightarrow> board \<Rightarrow> uint8_t \<Rightarrow> Settings \<Rightarrow> AttinyData \<Rightarrow> network
     \<Rightarrow> (halt + unit) \<times> Settings \<times> network \<times> event list" where
  "fetch_cfg_on_manual_wake P E wake_mode sett0 data net =
     (if wake_mode = MANUAL_TRANSMIT_MODE P \<and> config_restart_pending sett0 = 0 then
        let ev0 = [LOG ''Manual mode: Trying to fetch configuration via /cfg endpoint...''];
            fetched =
              (if is_waterius_site E sett0 then
                 fetch_and_apply_remote_config P (waterius_host sett0) (waterius_key sett0)
                   sett0 data net
               else if http_on sett0 \<noteq> 0 \<and> http_url sett0 \<noteq> [] then
                 fetch_and_apply_remote_config P (http_url sett0) (waterius_key sett0)
                   sett0 data net
               else Inr (False, sett0, net, []))
        in
        (case fetched of
           Inl h \<Rightarrow> (Inl h, sett0, net, ev0)
         | Inr (changed, sett1, net', ev) \<Rightarrow>
             if changed then
               let sett2 = sett1\<lparr>config_restart_pending := 1\<rparr> in
               (Inl Restart, sett2, net',
                ev0 @ ev @ [store_config sett2, wifi_shutdown, ESP_restart])
             else (Inr (), sett1, net', ev0 @ ev))
      else if config_restart_pending sett0 \<noteq> 0 then
        (Inr (), sett0, net, [LOG ''Skipping /cfg fetch (restart after config change)''])
      else (Inr (), sett0, net, []))"

text \<open>
  \<^verbatim>\<open>masterI2C.setWakeUpPeriod\<close> with the error line that follows when the peripheral
  does not acknowledge.
\<close>

definition set_wakeup_period :: "board \<Rightarrow> uint16_t \<Rightarrow> event list" where
  "set_wakeup_period E p =
     I2C_setWakeUpPeriod p
       # (if setWakeUpPeriod E p then [] else [LOG ''Wakeup period wasn't set''])"

text \<open>
  The body of \<^verbatim>\<open>if (!skip_transmission && wifi_connect(sett))\<close>, entered with the
  settings as \<^verbatim>\<open>wifi_connect\<close> left them.
\<close>

definition transmit ::
  "'z platform_scheme \<Rightarrow> board \<Rightarrow> uint8_t \<Rightarrow> Settings \<Rightarrow> AttinyData \<Rightarrow> CalculatedData
     \<Rightarrow> network \<Rightarrow> (halt + unit) \<times> Settings \<times> network \<times> event list" where
  "transmit P E wake_mode sett0 data cdata net =
     (let subscribed =
            (if is_mqtt E sett0 then connect_and_subscribe_mqtt E sett0 data cdata
             else (sett0, Map.empty));
          sett1 = ntp_sync P E wake_mode (fst subscribed);
          jsonData = get_json_data E sett1 data cdata (snd subscribed)
      in
      case send_waterius P E sett1 jsonData data net of
        (Inl h, sett2, net2, ev2) \<Rightarrow> (Inl h, sett2, net2, ev2)
      | (Inr sent_waterius, sett2, net2, ev2) \<Rightarrow>
          (case send_http P sett2 jsonData data net2 of
             (Inl h, sett3, net3, ev3) \<Rightarrow> (Inl h, sett3, net3, ev2 @ ev3)
           | (Inr sent_http, sett3, net3, ev3) \<Rightarrow>
               let ev4 = (if is_mqtt E sett3
                          then (if send_mqtt E sett3 jsonData then [LOG ''MQTT: Send OK''] else [])
                          else [LOG ''MQTT: SKIP''])
               in
               (case fetch_cfg_on_manual_wake P E wake_mode sett3 data net3 of
                  (Inl h, sett5, net5, ev5) \<Rightarrow> (Inl h, sett5, net5, ev2 @ ev3 @ ev4 @ ev5)
                | (Inr u, sett5, net5, ev5) \<Rightarrow>
                    let sett6 = update_config E sett5 data cdata;
                        sett7 =
                          (if wake_on_consumption_only sett6 \<noteq> 0
                              \<and> wakeups_without_send sett6 > 0
                           then sett6\<lparr>wakeups_without_send := 0\<rparr> else sett6)
                    in
                    (Inr (), sett7, net5,
                     ev2 @ ev3 @ ev4 @ ev5
                       @ [wifi_shutdown] @ set_wakeup_period E (period_min_tuned sett7)))))"

text \<open>How a cycle ends: the device goes to sleep, or it halts.\<close>

datatype cycle_end = Sleeps | Halts halt

definition going_to_sleep :: "board \<Rightarrow> event list" where
  "going_to_sleep E =
     (if getFlashChipVendorId E \<noteq> 196 then [I2C_setSleep, ESP_deepSleep] else [I2C_setSleep])"

text \<open>
  \<^verbatim>\<open>loop\<close>: one wake cycle, from the settings in the EEPROM and the network to the way
  the cycle ends, the global \<^verbatim>\<open>sett\<close> at that point, the rest of the network and the
  events.
\<close>

definition loop ::
  "'z platform_scheme \<Rightarrow> board \<Rightarrow> Settings \<Rightarrow> network
     \<Rightarrow> cycle_end \<times> Settings \<times> network \<times> event list" where
  "loop P E eeprom net =
     (case getMode E of
        None \<Rightarrow> (Sleeps, eeprom, net, going_to_sleep E)
      | Some wake_mode \<Rightarrow>
          (case getAttinyData E of
             None \<Rightarrow> (Sleeps, eeprom, net, going_to_sleep E)
           | Some data \<Rightarrow>
               let loaded = load_config E eeprom;
                   config_loaded = fst loaded;
                   calculated = calculate_values E ((snd loaded)\<lparr>mode := wake_mode\<rparr>) data;
                   sett0 = fst calculated;
                   cdata = snd calculated
               in
               if wake_mode = SETUP_MODE P then
                 let sett1 = start_active_point E sett0 cdata;
                     sett2 = sett1\<lparr>setup_time := millis E,
                                  setup_finished_counter := setup_finished_counter sett1 + 1\<rparr>
                 in
                 (Halts Restart, sett2, net,
                  [store_config sett2, wifi_shutdown, I2C_setTransmitMode, ESP_restart])
               else
                 (case wake_on_consumption_check P config_loaded wake_mode sett0 data cdata of
                    Inl h \<Rightarrow> (Halts h, sett0, net, [])
                  | Inr (skip_transmission, sett1) \<Rightarrow>
                      if config_loaded then
                        let transmitted =
                              (if \<not> skip_transmission then
                                 let connected = wifi_connect E sett1 in
                                 if fst connected
                                 then transmit P E wake_mode (snd connected) data cdata net
                                 else (Inr (), snd connected, net, [])
                               else (Inr (), sett1, net, []))
                        in
                        (case transmitted of
                           (Inl h, sett2, net2, ev2) \<Rightarrow> (Halts h, sett2, net2, ev2)
                         | (Inr u, sett2, net2, ev2) \<Rightarrow>
                             let sett3 =
                                   (if config_restart_pending sett2 \<noteq> 0
                                    then sett2\<lparr>config_restart_pending := 0\<rparr> else sett2)
                             in
                             (Sleeps, sett3, net2,
                              ev2 @ [store_config sett3] @ going_to_sleep E))
                      else (Sleeps, sett1, net, going_to_sleep E))))"

subsection \<open>Notions used to state the properties of the merge\<close>

text \<open>
  The statements before and after the counter-type block, the locals of that block
  (whether a member of the pair is present, the two target values, whether both are in
  the enumeration, whether the peripheral took the pair) and the events it adds.
\<close>

definition steps_before ::
  "'z platform_scheme \<Rightarrow> JsonDocument \<Rightarrow> AttinyData \<Rightarrow> (merge \<Rightarrow> merge) list" where
  "steps_before P config_json data = take 10 (config_steps P config_json data)"

definition steps_after ::
  "'z platform_scheme \<Rightarrow> JsonDocument \<Rightarrow> AttinyData \<Rightarrow> (merge \<Rightarrow> merge) list" where
  "steps_after P config_json data = drop 11 (config_steps P config_json data)"

definition ct_present :: "JsonDocument \<Rightarrow> bool" where
  "ct_present doc \<longleftrightarrow>
     \<not> isNull (getMember doc ''ctype0'') \<or> \<not> isNull (getMember doc ''ctype1'')"

definition ct_target0 :: "'z platform_scheme \<Rightarrow> JsonDocument \<Rightarrow> AttinyData \<Rightarrow> uint8_t" where
  "ct_target0 P doc data =
     (if \<not> isNull (getMember doc ''ctype0'') then as_uint8 P (getMember doc ''ctype0'')
      else counter_type0 data)"

definition ct_target1 :: "'z platform_scheme \<Rightarrow> JsonDocument \<Rightarrow> AttinyData \<Rightarrow> uint8_t" where
  "ct_target1 P doc data =
     (if \<not> isNull (getMember doc ''ctype1'') then as_uint8 P (getMember doc ''ctype1'')
      else counter_type1 data)"

definition permitted :: "'z platform_scheme \<Rightarrow> uint8_t \<Rightarrow> bool" where
  "permitted P ct \<longleftrightarrow> ct = NAMUR P \<or> ct = ELECTRONIC P \<or> ct = NONE P"

definition ct_events :: "'z platform_scheme \<Rightarrow> JsonDocument \<Rightarrow> AttinyData \<Rightarrow> event list" where
  "ct_events P doc data =
     (if ct_present doc then
        if permitted P (ct_target0 P doc data) \<and> permitted P (ct_target1 P doc data)
        then [I2C_setCountersType (ct_target0 P doc data) (ct_target1 P doc data)]
        else [LOG ''RCFG: bad ctype'']
      else [])"

definition ct_accepted :: "'z platform_scheme \<Rightarrow> JsonDocument \<Rightarrow> AttinyData \<Rightarrow> bool" where
  "ct_accepted P doc data \<longleftrightarrow>
     ct_present doc \<and> permitted P (ct_target0 P doc data) \<and> permitted P (ct_target1 P doc data)
     \<and> setCountersType P (ct_target0 P doc data) (ct_target1 P doc data)"

text \<open>
  The bounds that the interface description declares for the fields of a document, as a
  table: the numeric fields with their inclusive ranges, read at the type of the setting,
  and the string fields with the size of the buffer they must fit. A field behind a gate
  names the flag that opens it; the gate holds when the document sets the flag to true
  or, if the document has no such member, when the stored flag is set.
  \<open>touches_period_only\<close> says of \<^verbatim>\<open>reset_period_min_tuned\<close>, which is not among the
  sources, that it changes no field other than \<^verbatim>\<open>period_min_tuned\<close>.
\<close>

definition string_fields :: "'z platform_scheme \<Rightarrow> (string \<times> nat) list" where
  "string_fields P =
     [(''serial0'', SERIAL_LEN P), (''serial1'', SERIAL_LEN P),
      (''ssid'', WIFI_SSID_LEN P), (''password'', WIFI_PWD_LEN P),
      (''mqtt_host'', HOST_LEN P), (''mqtt_login'', MQTT_LOGIN_LEN P),
      (''mqtt_password'', MQTT_PASSWORD_LEN P), (''mqtt_topic'', MQTT_TOPIC_LEN P),
      (''http_url'', HOST_LEN P), (''ntp_server'', HOST_LEN P),
      (''waterius_host'', HOST_LEN P), (''waterius_key'', WATERIUS_KEY_LEN P),
      (''waterius_email'', EMAIL_LEN P), (''company'', COMPANY_LEN P),
      (''place'', PLACE_LEN P), (''mqtt_discovery_topic'', MQTT_TOPIC_LEN P)]"

definition numeric_fields :: "string list" where
  "numeric_fields = [''channel0'', ''channel1'', ''cname0'', ''cname1'', ''factor0'',
     ''factor1'', ''wakeup_per_min'', ''wake_on_consumption_only'', ''mqtt_port'']"

definition bounded_fields :: "'z platform_scheme \<Rightarrow> string list" where
  "bounded_fields P = numeric_fields @ map fst (string_fields P)"

definition within_declared_bounds :: "'z platform_scheme \<Rightarrow> string \<Rightarrow> json \<Rightarrow> bool" where
  "within_declared_bounds P key v =
     (if key = ''channel0'' \<or> key = ''channel1'' then
        0 \<le> as_float P v \<and> as_float P v \<le> 999999
      else if key = ''cname0'' \<or> key = ''cname1'' then
        0 \<le> as_uint8 P v \<and> as_uint8 P v \<le> COUNTER_NAME_MAX P
      else if key = ''factor0'' \<or> key = ''factor1'' then
        1 \<le> as_uint16 P v \<and> as_uint16 P v \<le> 10000
      else if key = ''wakeup_per_min'' then
        1 \<le> as_uint16 P v \<and> as_uint16 P v \<le> 1440
      else if key = ''wake_on_consumption_only'' then
        0 \<le> as_uint8 P v \<and> as_uint8 P v \<le> 1
      else if key = ''mqtt_port'' then
        1 \<le> as_uint16 P v \<and> as_uint16 P v \<le> 65535
      else
        (case map_of (string_fields P) key of
           Some max_len \<Rightarrow> int (length (as_String P v)) \<le> int max_len - 1
         | None \<Rightarrow> True))"

definition gate_of :: "string \<Rightarrow> (string \<times> (Settings \<Rightarrow> uint8_t)) option" where
  "gate_of key =
     (if key \<in> set [''mqtt_host'', ''mqtt_port'', ''mqtt_login'', ''mqtt_password'',
                     ''mqtt_topic''] then Some (''mqtt_on'', mqtt_on)
      else if key = ''http_url'' then Some (''http_on'', http_on)
      else if key \<in> set [''static_ip'', ''gateway'', ''mask''] then Some (''dhcp_off'', dhcp_off)
      else None)"

definition gate_holds :: "'z platform_scheme \<Rightarrow> Settings \<Rightarrow> JsonDocument \<Rightarrow> string \<Rightarrow> bool" where
  "gate_holds P s doc key =
     (case gate_of key of
        None \<Rightarrow> True
      | Some (flag_key, flag) \<Rightarrow>
          if isNull (getMember doc flag_key) then flag s \<noteq> 0
          else as_bool P (getMember doc flag_key))"

definition touches_period_only :: "'z platform_scheme \<Rightarrow> bool" where
  "touches_period_only P \<longleftrightarrow>
     (\<forall>s. \<exists>p. reset_period_min_tuned P s = s\<lparr>period_min_tuned := p\<rparr>)"

text \<open>The local \<^verbatim>\<open>param\<close> of \<^verbatim>\<open>update_settings\<close>: the segment of the topic before \<^verbatim>\<open>/set\<close>.\<close>

definition topic_param :: "string \<Rightarrow> string" where
  "topic_param topic =
     (let endslash = lastIndexOf topic CHR ''/'' (int (length topic) - 1);
          prevslash = lastIndexOf topic CHR ''/'' (endslash - 1)
      in substring topic (nat (prevslash + 1)) (nat endslash))"

text \<open>
  The decision of the heartbeat block as a rule: the threshold of wakes without
  transmission for a wake period, whether a wake is expected to skip, and the settings
  after a skip.
\<close>

definition heartbeat_threshold :: "uint16_t \<Rightarrow> nat" where
  "heartbeat_threshold period = max 1 (1440 div unat period)"

definition skip_expected :: "'z config_h_scheme \<Rightarrow> uint8_t \<Rightarrow> Settings \<Rightarrow> CalculatedData \<Rightarrow> bool" where
  "skip_expected P wake_mode s cdata \<longleftrightarrow>
     wake_mode = TRANSMIT_MODE P \<and> wake_on_consumption_only s \<noteq> 0
     \<and> delta0 cdata = 0 \<and> delta1 cdata = 0
     \<and> unat (wakeups_without_send s) < heartbeat_threshold (wakeup_per_min s)"

definition skipped :: "Settings \<Rightarrow> AttinyData \<Rightarrow> Settings" where
  "skipped s data =
     s\<lparr>impulses0_previous := impulses0 data, impulses1_previous := impulses1 data,
       wakeups_without_send := wakeups_without_send s + 1\<rparr>"

text \<open>
  For the reboot-loop guard: the events that begin a pull of a configuration, a check of
  a response for one, or a merge; the writes of the settings; the assumption on the
  firmware functions outside the sources that they leave \<^verbatim>\<open>config_restart_pending\<close>
  alone; and what a part of the cycle owes the guard, given the settings \<open>s\<close> it
  starts from: it restarts only from a clear flag, and then the last things it does are
  to store the settings with the flag set and to restart; otherwise it leaves the flag
  as it was; and from a set flag it neither tries a configuration nor stores anything.
\<close>

fun config_attempt :: "event \<Rightarrow> bool" where
  "config_attempt (LOG m) =
     (m = ''WATR: Checking response for configuration...''
      \<or> m = ''HTTP: Checking response for configuration...''
      \<or> m = ''Manual mode: Trying to fetch configuration via /cfg endpoint...''
      \<or> m = ''RCFG: Applying config...'')"
| "config_attempt _ = False"

fun is_store :: "event \<Rightarrow> bool" where
  "is_store (store_config s) = True"
| "is_store _ = False"



text \<open>
  A step is quiet when it neither adds an event nor looks at the events; it grows when
  it never takes \<^verbatim>\<open>config_changed\<close> back; it keeps \<open>g\<close> when it leaves that part of
  the settings as it was.
\<close>

definition quiet :: "(merge \<Rightarrow> merge) \<Rightarrow> bool" where
  "quiet step \<longleftrightarrow> (\<forall>st e. step (st\<lparr>events := e\<rparr>) = (step st)\<lparr>events := e\<rparr>)"

definition grows :: "(merge \<Rightarrow> merge) \<Rightarrow> bool" where
  "grows step \<longleftrightarrow> (\<forall>st. config_changed st \<longrightarrow> config_changed (step st))"

definition keeps :: "(Settings \<Rightarrow> 'b) \<Rightarrow> (merge \<Rightarrow> merge) \<Rightarrow> bool" where
  "keeps g step \<longleftrightarrow> (\<forall>st. g (sett (step st)) = g (sett st))"

subsection \<open>Effects of the merge engine\<close>

text \<open>
  What only \<^verbatim>\<open>apply_config_from_server\<close> and its callers' success paths do: the line
  logged on entry, a call of the peripheral and a write of the settings.
\<close>

fun merge_effect :: "event \<Rightarrow> bool" where
  "merge_effect (LOG m) = (m = ''RCFG: Applying config...'')"
| "merge_effect (I2C_setCountersType _ _) = True"
| "merge_effect (store_config _) = True"
| "merge_effect _ = False"

subsection \<open>A platform for the examples\<close>

text \<open>
  The examples below run the model on one platform. Its conversions follow ArduinoJson on
  null, booleans and integers, and on strings for \<^verbatim>\<open>as<String>()\<close>: a number that does
  not fit the target type reads as 0, a boolean reads as 0 or 1, and a string that does not
  spell a number reads as the number 0. (The library reads a number out of a string that
  spells one; the examples hold no such string.) \<^verbatim>\<open>as<String>()\<close> gives a string as it
  is and, of a value that is not a string, the JSON text: \<^verbatim>\<open>null\<close>, \<^verbatim>\<open>true\<close>,
  \<^verbatim>\<open>false\<close>, the decimal digits of an integer (the examples read no other value as a
  string). \<^verbatim>\<open>deserializeJson\<close> knows the bodies the examples use. The peripheral accepts
  every pair of counter types.
\<close>

fun example_decimal :: "nat \<Rightarrow> string" where
  "example_decimal n =
     (if n < 10 then [''0123456789'' ! n]
      else example_decimal (n div 10) @ [''0123456789'' ! (n mod 10)])"

fun example_as_String :: "json \<Rightarrow> string" where
  "example_as_String (JString s) = s"
| "example_as_String JNull = ''null''"
| "example_as_String (JBool b) = (if b then ''true'' else ''false'')"
| "example_as_String (JInt i) =
     (if i < 0 then CHR ''-'' # example_decimal (nat (- i)) else example_decimal (nat i))"
| "example_as_String _ = []"

fun example_as_bool :: "json \<Rightarrow> bool" where
  "example_as_bool (JBool b) = b"
| "example_as_bool (JInt i) = (i \<noteq> 0)"
| "example_as_bool (JFloat r) = (r \<noteq> 0)"
| "example_as_bool JNull = False"
| "example_as_bool _ = True"

fun example_as_float :: "json \<Rightarrow> real" where
  "example_as_float (JInt i) = real_of_int i"
| "example_as_float (JFloat r) = r"
| "example_as_float (JBool b) = of_bool b"
| "example_as_float _ = 0"

fun example_as_uint :: "json \<Rightarrow> 'a::len word" where
  "example_as_uint (JInt i) = (if 0 \<le> i \<and> i < 2 ^ LENGTH('a) then word_of_int i else 0)"
| "example_as_uint (JFloat r) =
     (if 0 \<le> r \<and> r \<le> 2 ^ LENGTH('a) - 1 then word_of_int \<lfloor>r\<rfloor> else 0)"
| "example_as_uint (JBool b) = of_bool b"
| "example_as_uint _ = 0"

fun example_is_int :: "json \<Rightarrow> bool" where
  "example_is_int (JInt i) = (- (2 ^ 31) \<le> i \<and> i < 2 ^ 31)"
| "example_is_int _ = False"

fun example_is_float :: "json \<Rightarrow> bool" where
  "example_is_float (JInt i) = True"
| "example_is_float (JFloat r) = True"
| "example_is_float _ = False"

text \<open>
  \<^verbatim>\<open>String::toInt\<close> and \<^verbatim>\<open>String::toFloat\<close> of the examples read a run of decimal
  digits and, for a float, a fraction after a point; the examples use no other text.
  \<^verbatim>\<open>toFloat\<close> is \<^verbatim>\<open>atof\<close>, which gives the nearest \<^verbatim>\<open>double\<close>, converted to
  \<^verbatim>\<open>float\<close>.
\<close>

fun example_digits :: "string \<Rightarrow> nat \<Rightarrow> nat" where
  "example_digits [] acc = acc"
| "example_digits (c # cs) acc =
     (if 48 \<le> (of_char c :: nat) \<and> (of_char c :: nat) \<le> 57
      then example_digits cs (acc * 10 + (of_char c - 48)) else acc)"

definition example_toInt :: "string \<Rightarrow> int" where
  "example_toInt s = int (example_digits s 0)"

definition example_toFloat :: "string \<Rightarrow> real" where
  "example_toFloat s =
     (let whole = takeWhile (\<lambda>c. c \<noteq> CHR ''.'') s;
          fraction = drop (length whole + 1) s
      in binary32 (binary64 (real (example_digits whole 0)
                               + real (example_digits fraction 0) / 10 ^ length fraction)))"

definition example_body_wrong_key :: string where
  \<open>example_body_wrong_key = ''{"key":"not-the-key","channel0":5}''\<close>

definition example_body_config :: string where
  \<open>example_body_config = ''{"key":"device-key","factor0":10}''\<close>

definition example_deserializeJson :: "string \<Rightarrow> JsonDocument option" where
  "example_deserializeJson body =
     (if body = example_body_wrong_key then
        Some [''key'' \<mapsto> JString ''not-the-key'', ''channel0'' \<mapsto> JInt 5]
      else if body = example_body_config then
        Some [''key'' \<mapsto> JString ''device-key'', ''factor0'' \<mapsto> JInt 10]
      else None)"

definition example_serializeJson :: "JsonDocument \<Rightarrow> string" where
  \<open>example_serializeJson doc =
     (case doc ''key'' of Some (JString k) \<Rightarrow> ''{"key":"'' @ k @ ''"}'' | _ \<Rightarrow> ''{}'')\<close>

definition example_platform :: platform where
  "example_platform =
     \<lparr>REMOTE_CONFIG_MAX_SIZE = 2048, SERIAL_LEN = 16, WIFI_SSID_LEN = 32, WIFI_PWD_LEN = 64,
      HOST_LEN = 64, MQTT_LOGIN_LEN = 32, MQTT_PASSWORD_LEN = 66, MQTT_TOPIC_LEN = 64,
      WATERIUS_KEY_LEN = 34, EMAIL_LEN = 40, COMPANY_LEN = 32, PLACE_LEN = 32,
      COUNTER_NAME_MAX = 7, NAMUR = 0, ELECTRONIC = 2, NONE = 255,
      SETUP_MODE = 1, TRANSMIT_MODE = 2, MANUAL_TRANSMIT_MODE = 3,
      PROTO_HTTP = ''http'', PROTO_HTTPS = ''https'',
      as_String = example_as_String, as_bool = example_as_bool,
      as_float = example_as_float, as_uint8 = example_as_uint,
      as_uint16 = example_as_uint, as_uint32 = example_as_uint,
      is_int = example_is_int, is_float = example_is_float,
      serializeJson = example_serializeJson, deserializeJson = example_deserializeJson,
      toInt = example_toInt, toFloat = example_toFloat,
      IPAddress_fromString = (\<lambda>s. None), HTTPClient_begin = (\<lambda>url. True),
      strncpy0 = (\<lambda>s n. take (n - 1) s),
      reset_period_min_tuned = (\<lambda>s. s\<lparr>period_min_tuned := wakeup_per_min s\<rparr>),
      get_proto = (\<lambda>url. if startsWith url ''https'' then ''https'' else ''http''),
      data_type_by_name = (\<lambda>n. 0), setCountersType = (\<lambda>ct0 ct1. True)\<rparr>"

definition example_settings :: Settings where
  "example_settings =
     \<lparr>channel0_start = 1, channel1_start = 2, serial0 = ''A0'', serial1 = ''A1'',
      counter0_name = 0, counter1_name = 1, factor0 = 1, factor1 = 1,
      impulses0_start = 100, impulses0_previous = 150, impulses1_start = 200,
      impulses1_previous = 250, wakeup_per_min = 10, wake_on_consumption_only = 1,
      wifi_ssid = ''home'', wifi_password = ''pass'', mqtt_on = 0, mqtt_host = [],
      mqtt_port = 1883, mqtt_login = [], mqtt_password = [], mqtt_topic = [],
      http_on = 0, http_url = [], ntp_server = ''pool.ntp.org'',
      waterius_host = ''https://cloud.waterius.ru'', waterius_key = ''device-key'',
      waterius_email = ''user@example.org'', waterius_on = 1, company = [], place = [],
      mqtt_auto_discovery = 0, mqtt_discovery_topic = [], dhcp_off = 0, ip = 0,
      gateway = 0, mask_addr = 0, mdns_on = 0, mode = 2, config_restart_pending = 0,
      setup_time = 0, setup_finished_counter = 0, wakeups_without_send = 5,
      last_ntp_sync = 0, ntp_error_counter = 0, period_min_tuned = 10\<rparr>"

definition example_data :: AttinyData where
  "example_data = \<lparr>impulses0 = 150, impulses1 = 250, counter_type0 = 0, counter_type1 = 0\<rparr>"

text \<open>
  The board of the examples: a scheduled wake, Wi-Fi connects, the clock is valid, the
  deltas are the impulses since the previous cycle, and the firmware functions outside
  the sources leave the settings alone but for \<^verbatim>\<open>update_config\<close>, which records the
  impulses.
\<close>

definition example_board :: board where
  "example_board =
     \<lparr>getMode = Some 2, getAttinyData = Some example_data,
      load_config = (\<lambda>stored. (True, stored)),
      calculate_values = (\<lambda>s d. (s, \<lparr>delta0 = impulses0 d - impulses0_previous s,
                                        delta1 = impulses1 d - impulses1_previous s\<rparr>)),
      start_active_point = (\<lambda>s c. s), millis = 1000,
      wifi_connect = (\<lambda>s. (True, s)), is_mqtt = (\<lambda>s. mqtt_on s \<noteq> 0),
      connect_and_subscribe_mqtt = (\<lambda>s d c. (s, Map.empty)),
      is_https = (\<lambda>url. startsWith url ''https''),
      time_now = 1700000000, time_synced = 1700000001,
      is_valid_time = (\<lambda>t. 1600000000 < t), sync_ntp_time = (\<lambda>s. (True, s)),
      get_json_data = (\<lambda>s d c j. j),
      is_waterius_site = (\<lambda>s. waterius_on s \<noteq> 0 \<and> waterius_host s \<noteq> []),
      send_mqtt = (\<lambda>s j. True),
      update_config = (\<lambda>s d c. s\<lparr>impulses0_previous := impulses0 d,
                                   impulses1_previous := impulses1 d\<rparr>),
      setWakeUpPeriod = (\<lambda>p. True), getFlashChipVendorId = 32\<rparr>"

section \<open>Properties\<close>

subsection \<open>Helper facts about events\<close>

lemma validate_events:
  "\<not> list_ex merge_effect (snd (snd (validate_and_get_response C h code buf)))"
  by (simp add: validate_and_get_response_def Let_def)

lemma auth_events: "\<not> list_ex merge_effect (snd (validate_device_key P doc key))"
  by (simp add: validate_device_key_def Let_def)

lemma fetch_events:
  "fetch_config_from_server P url key net = Inr (fetched, doc, net', ev)
     \<Longrightarrow> \<not> list_ex merge_effect ev"
  using validate_events[of P]
  by (auto simp: fetch_config_from_server_def Let_def split: if_splits option.splits)

subsection \<open>Helper facts about the steps of the merge\<close>

lemma getMember_other: "k \<noteq> key \<Longrightarrow> getMember (doc(k := None)) key = getMember doc key"
  by (simp add: getMember_def)

lemma getMember_removed: "getMember (doc(k := None)) k = JNull"
  by (simp add: getMember_def)

lemma NUM_other: "k \<noteq> key \<Longrightarrow> APPLY_CFG_NUM (doc(k := None)) key = APPLY_CFG_NUM doc key"
  by (simp add: APPLY_CFG_NUM_def getMember_other fun_eq_iff)

lemma STR_other: "k \<noteq> key \<Longrightarrow> APPLY_CFG_STR P (doc(k := None)) key = APPLY_CFG_STR P doc key"
  by (simp add: APPLY_CFG_STR_def getMember_other fun_eq_iff)

lemma flag_other: "k \<noteq> key \<Longrightarrow> apply_flag P (doc(k := None)) key = apply_flag P doc key"
  by (simp add: apply_flag_def getMember_other fun_eq_iff)

lemma impulses_other: "k \<noteq> key \<Longrightarrow> apply_impulses P (doc(k := None)) key = apply_impulses P doc key"
  by (simp add: apply_impulses_def getMember_other fun_eq_iff)

lemma address_other: "k \<noteq> key \<Longrightarrow> apply_address P (doc(k := None)) key = apply_address P doc key"
  by (simp add: apply_address_def getMember_other fun_eq_iff)

lemma wakeup_other:
  "k \<noteq> ''wakeup_per_min'' \<Longrightarrow> apply_wakeup_per_min P (doc(k := None)) = apply_wakeup_per_min P doc"
  by (simp add: apply_wakeup_per_min_def getMember_other fun_eq_iff)

lemma counter_types_other:
  "k \<noteq> ''ctype0'' \<Longrightarrow> k \<noteq> ''ctype1'' \<Longrightarrow>
     apply_counter_types P (doc(k := None)) = apply_counter_types P doc"
  by (simp add: apply_counter_types_def getMember_other fun_eq_iff)

lemmas other_key = NUM_other STR_other flag_other impulses_other address_other wakeup_other
  counter_types_other

lemma quiet_events: "quiet step \<Longrightarrow> events (step st) = events st"
proof -
  assume q: "quiet step"
  have "step (st\<lparr>events := events st\<rparr>) = (step st)\<lparr>events := events st\<rparr>"
    using q unfolding quiet_def by blast
  then have "step st = (step st)\<lparr>events := events st\<rparr>" by simp
  then have "events (step st) = events ((step st)\<lparr>events := events st\<rparr>)" by simp
  then show ?thesis by simp
qed

lemma quiet_NUM: "quiet (APPLY_CFG_NUM doc key as_T upd lo hi)"
  by (simp add: quiet_def APPLY_CFG_NUM_def Let_def)

lemma quiet_STR: "quiet (APPLY_CFG_STR P doc key upd n)"
  by (simp add: quiet_def APPLY_CFG_STR_def Let_def)

lemma quiet_flag: "quiet (apply_flag P doc key upd)"
  by (simp add: quiet_def apply_flag_def)

lemma quiet_impulses: "quiet (apply_impulses P doc key upd1 upd2)"
  by (simp add: quiet_def apply_impulses_def Let_def)

lemma quiet_address: "quiet (apply_address P doc key upd)"
  by (simp add: quiet_def apply_address_def split: option.splits)

lemma quiet_wakeup: "quiet (apply_wakeup_per_min P doc)"
  by (simp add: quiet_def apply_wakeup_per_min_def Let_def)

lemma quiet_run: "list_all quiet steps \<Longrightarrow> quiet (run steps)"
proof (induction steps)
  case Nil
  then show ?case by (simp add: quiet_def run_def)
next
  case (Cons a steps)
  then have a: "quiet a" and r: "quiet (run steps)" by simp_all
  show ?case
    unfolding quiet_def
  proof (intro allI)
    fix st e
    have "run (a # steps) (st\<lparr>events := e\<rparr>) = run steps (a (st\<lparr>events := e\<rparr>))"
      by (simp add: run_def)
    also have "\<dots> = run steps ((a st)\<lparr>events := e\<rparr>)"
      using a by (simp add: quiet_def)
    also have "\<dots> = (run steps (a st))\<lparr>events := e\<rparr>"
      using r by (simp add: quiet_def)
    finally show "run (a # steps) (st\<lparr>events := e\<rparr>) = (run (a # steps) st)\<lparr>events := e\<rparr>"
      by (simp add: run_def)
  qed
qed

lemma quiet_when_flag: "list_all quiet steps \<Longrightarrow> quiet (when_flag flag steps)"
  using quiet_run[of steps] by (simp add: quiet_def when_flag_def)

lemmas quiet_steps = quiet_NUM quiet_STR quiet_flag quiet_impulses quiet_address quiet_wakeup
  quiet_when_flag

lemma run_append: "run (xs @ ys) st = run ys (run xs st)"
  by (simp add: run_def)

lemma grows_NUM: "grows (APPLY_CFG_NUM doc key as_T upd lo hi)"
  by (simp add: grows_def APPLY_CFG_NUM_def Let_def)

lemma grows_STR: "grows (APPLY_CFG_STR P doc key upd n)"
  by (simp add: grows_def APPLY_CFG_STR_def Let_def)

lemma grows_flag: "grows (apply_flag P doc key upd)"
  by (simp add: grows_def apply_flag_def)

lemma grows_impulses: "grows (apply_impulses P doc key upd1 upd2)"
  by (simp add: grows_def apply_impulses_def Let_def)

lemma grows_address: "grows (apply_address P doc key upd)"
  by (simp add: grows_def apply_address_def split: option.splits)

lemma grows_wakeup: "grows (apply_wakeup_per_min P doc)"
  by (simp add: grows_def apply_wakeup_per_min_def Let_def)

lemma grows_counter_types: "grows (apply_counter_types P doc data)"
  by (simp add: grows_def apply_counter_types_def Let_def)

lemma grows_run: "list_all grows steps \<Longrightarrow> grows (run steps)"
proof (induction steps)
  case Nil
  then show ?case by (simp add: grows_def run_def)
next
  case (Cons a steps)
  then have a: "grows a" and r: "grows (run steps)" by simp_all
  have "run (a # steps) = (\<lambda>st. run steps (a st))"
    by (simp add: run_def fun_eq_iff)
  then show ?case using a r by (simp add: grows_def)
qed

lemma grows_when_flag: "list_all grows steps \<Longrightarrow> grows (when_flag flag steps)"
  using grows_run[of steps] by (simp add: grows_def when_flag_def)

lemmas grows_steps = grows_NUM grows_STR grows_flag grows_impulses grows_address grows_wakeup
  grows_counter_types grows_when_flag

lemma config_steps_split:
  "config_steps P doc data =
     steps_before P doc data @ apply_counter_types P doc data # steps_after P doc data"
  by (simp add: steps_before_def steps_after_def config_steps_def)

lemma quiet_before: "list_all quiet (steps_before P doc data)"
  by (simp add: steps_before_def config_steps_def quiet_steps)

lemma quiet_after: "list_all quiet (steps_after P doc data)"
  by (simp add: steps_after_def config_steps_def quiet_steps)

lemma grows_after: "list_all grows (steps_after P doc data)"
  by (simp add: steps_after_def config_steps_def grows_steps)

lemma before_without_ctypes:
  "steps_before P (doc(''ctype0'' := None, ''ctype1'' := None)) data = steps_before P doc data"
  by (simp add: steps_before_def config_steps_def other_key)

lemma after_without_ctypes:
  "steps_after P (doc(''ctype0'' := None, ''ctype1'' := None)) data = steps_after P doc data"
  by (simp add: steps_after_def config_steps_def other_key)

lemma counter_types_absent:
  "apply_counter_types P (doc(''ctype0'' := None, ''ctype1'' := None)) data st = st"
  by (simp add: apply_counter_types_def getMember_def isNull_def)

lemma counter_types_form:
  "apply_counter_types P doc data st =
     st\<lparr>config_changed := config_changed st \<or> ct_accepted P doc data,
        events := events st @ ct_events P doc data\<rparr>"
  by (simp add: apply_counter_types_def ct_accepted_def ct_events_def ct_present_def
      ct_target0_def ct_target1_def permitted_def Let_def)

lemma apply_config_form:
  fixes P :: "'z platform_scheme" and s :: Settings and doc :: JsonDocument and data :: AttinyData
  defines "st0 \<equiv> \<lparr>sett = s, config_changed = False, events = [LOG ''RCFG: Applying config...'']\<rparr>"
  defines "st1 \<equiv> run (steps_before P doc data) st0"
  defines "st2 \<equiv> run (steps_after P doc data)
                    (st1\<lparr>config_changed := config_changed st1 \<or> ct_accepted P doc data\<rparr>)"
  shows "apply_config_from_server P s doc data =
           (config_changed st2, sett st2,
            [LOG ''RCFG: Applying config...''] @ ct_events P doc data)"
proof -
  have ev1: "events st1 = [LOG ''RCFG: Applying config...'']"
    unfolding st1_def using quiet_events[OF quiet_run[OF quiet_before[of P doc data]], of st0]
    by (simp add: st0_def)
  have qa: "quiet (run (steps_after P doc data))"
    by (rule quiet_run[OF quiet_after])
  have "run (config_steps P doc data) st0 =
          run (steps_after P doc data) (apply_counter_types P doc data st1)"
    by (simp add: config_steps_split run_append st1_def run_def)
  also have "\<dots> = run (steps_after P doc data)
      ((st1\<lparr>config_changed := config_changed st1 \<or> ct_accepted P doc data\<rparr>)
         \<lparr>events := events st1 @ ct_events P doc data\<rparr>)"
    by (simp add: counter_types_form)
  also have "\<dots> = st2\<lparr>events := events st1 @ ct_events P doc data\<rparr>"
    using qa unfolding quiet_def st2_def by blast
  finally show ?thesis
    by (simp add: apply_config_from_server_def st0_def[symmetric] ev1 Let_def)
qed


lemma NUM_skipped:
  "isNull (getMember doc key) \<or>
   \<not> (lo \<le> as_T (getMember doc key) \<and> as_T (getMember doc key) \<le> hi) \<Longrightarrow>
   APPLY_CFG_NUM doc key as_T upd lo hi = (\<lambda>st. st)"
  by (auto simp: APPLY_CFG_NUM_def fun_eq_iff Let_def)

lemma STR_skipped:
  "isNull (getMember doc key) \<or>
   \<not> int (length (as_String P (getMember doc key))) \<le> int n - 1 \<Longrightarrow>
   APPLY_CFG_STR P doc key upd n = (\<lambda>st. st)"
  by (auto simp: APPLY_CFG_STR_def fun_eq_iff Let_def)

lemma wakeup_skipped:
  "isNull (getMember doc ''wakeup_per_min'') \<or>
   \<not> (1 \<le> as_uint16 P (getMember doc ''wakeup_per_min'') \<and>
      as_uint16 P (getMember doc ''wakeup_per_min'') \<le> 1440) \<Longrightarrow>
   apply_wakeup_per_min P doc = (\<lambda>st. st)"
  by (auto simp: apply_wakeup_per_min_def fun_eq_iff Let_def)

lemma address_skipped:
  "isNull (getMember doc key) \<Longrightarrow> apply_address P doc key upd = (\<lambda>st. st)"
  by (auto simp: apply_address_def fun_eq_iff)

lemma isNull_removed: "isNull (getMember (doc(k := None)) k)"
  by (simp add: getMember_removed isNull_def)

lemma skipped_steps:
  assumes k: "key \<in> set (bounded_fields P)"
    and bad: "isNull (getMember doc key) \<or> \<not> within_declared_bounds P key (getMember doc key)"
  shows "config_steps P doc data = config_steps P (doc(key := None)) data"
proof -
  from k have "key = ''channel0'' \<or> key = ''channel1'' \<or> key = ''cname0'' \<or> key = ''cname1''
    \<or> key = ''factor0'' \<or> key = ''factor1'' \<or> key = ''wakeup_per_min''
    \<or> key = ''wake_on_consumption_only'' \<or> key = ''mqtt_port''
    \<or> key = ''serial0'' \<or> key = ''serial1'' \<or> key = ''ssid'' \<or> key = ''password''
    \<or> key = ''mqtt_host'' \<or> key = ''mqtt_login'' \<or> key = ''mqtt_password''
    \<or> key = ''mqtt_topic'' \<or> key = ''http_url'' \<or> key = ''ntp_server''
    \<or> key = ''waterius_host'' \<or> key = ''waterius_key'' \<or> key = ''waterius_email''
    \<or> key = ''company'' \<or> key = ''place'' \<or> key = ''mqtt_discovery_topic''"
    by (auto simp: bounded_fields_def numeric_fields_def string_fields_def)
  then show ?thesis
    by (elim disjE)
      (insert bad, simp_all add: config_steps_def other_key within_declared_bounds_def
        string_fields_def NUM_skipped STR_skipped wakeup_skipped isNull_removed)
qed

lemma keeps_id: "keeps g (\<lambda>st. st)"
  by (simp add: keeps_def)

lemma keeps_NUM: "(\<And>f s. g (upd f s) = g s) \<Longrightarrow> keeps g (APPLY_CFG_NUM doc key as_T upd lo hi)"
  by (simp add: keeps_def APPLY_CFG_NUM_def Let_def)

lemma keeps_STR: "(\<And>f s. g (upd f s) = g s) \<Longrightarrow> keeps g (APPLY_CFG_STR P doc key upd n)"
  by (simp add: keeps_def APPLY_CFG_STR_def Let_def)

lemma keeps_flag: "(\<And>f s. g (upd f s) = g s) \<Longrightarrow> keeps g (apply_flag P doc key upd)"
  by (simp add: keeps_def apply_flag_def)

lemma keeps_impulses:
  "(\<And>f s. g (upd1 f s) = g s) \<Longrightarrow> (\<And>f s. g (upd2 f s) = g s) \<Longrightarrow>
     keeps g (apply_impulses P doc key upd1 upd2)"
  by (simp add: keeps_def apply_impulses_def Let_def)

lemma keeps_address: "(\<And>f s. g (upd f s) = g s) \<Longrightarrow> keeps g (apply_address P doc key upd)"
  by (simp add: keeps_def apply_address_def split: option.splits)

lemma keeps_wakeup:
  "(\<And>s. g (reset_period_min_tuned P s) = g s) \<Longrightarrow> (\<And>f s. g (wakeup_per_min_update f s) = g s)
     \<Longrightarrow> keeps g (apply_wakeup_per_min P doc)"
  by (simp add: keeps_def apply_wakeup_per_min_def Let_def)

lemma keeps_counter_types: "keeps g (apply_counter_types P doc data)"
  by (simp add: keeps_def apply_counter_types_def Let_def)

lemma keeps_run: "list_all (keeps g) steps \<Longrightarrow> keeps g (run steps)"
proof (induction steps)
  case Nil
  then show ?case by (simp add: keeps_def run_def)
next
  case (Cons a steps)
  then have a: "keeps g a" and r: "keeps g (run steps)" by simp_all
  have "run (a # steps) = (\<lambda>st. run steps (a st))"
    by (simp add: run_def fun_eq_iff)
  then show ?case using a r by (simp add: keeps_def)
qed

lemma keeps_when_flag: "list_all (keeps g) steps \<Longrightarrow> keeps g (when_flag flag steps)"
  using keeps_run[of g steps] by (simp add: keeps_def when_flag_def)

lemmas keeps_steps = keeps_id keeps_NUM keeps_STR keeps_flag keeps_impulses keeps_address
  keeps_wakeup keeps_counter_types keeps_when_flag

lemma period_only_mqtt_on: "touches_period_only P \<Longrightarrow> mqtt_on (reset_period_min_tuned P s) = mqtt_on s"
  unfolding touches_period_only_def
proof -
  assume "\<forall>s. \<exists>p. reset_period_min_tuned P s = s\<lparr>period_min_tuned := p\<rparr>"
  then obtain p where "reset_period_min_tuned P s = s\<lparr>period_min_tuned := p\<rparr>" by blast
  then show ?thesis by simp
qed

lemma period_only_http_on: "touches_period_only P \<Longrightarrow> http_on (reset_period_min_tuned P s) = http_on s"
  unfolding touches_period_only_def
proof -
  assume "\<forall>s. \<exists>p. reset_period_min_tuned P s = s\<lparr>period_min_tuned := p\<rparr>"
  then obtain p where "reset_period_min_tuned P s = s\<lparr>period_min_tuned := p\<rparr>" by blast
  then show ?thesis by simp
qed

lemma period_only_dhcp_off: "touches_period_only P \<Longrightarrow> dhcp_off (reset_period_min_tuned P s) = dhcp_off s"
  unfolding touches_period_only_def
proof -
  assume "\<forall>s. \<exists>p. reset_period_min_tuned P s = s\<lparr>period_min_tuned := p\<rparr>"
  then obtain p where "reset_period_min_tuned P s = s\<lparr>period_min_tuned := p\<rparr>" by blast
  then show ?thesis by simp
qed

lemma period_only_channel0: "touches_period_only P \<Longrightarrow> channel0_start (reset_period_min_tuned P s) = channel0_start s"
  unfolding touches_period_only_def
proof -
  assume "\<forall>s. \<exists>p. reset_period_min_tuned P s = s\<lparr>period_min_tuned := p\<rparr>"
  then obtain p where "reset_period_min_tuned P s = s\<lparr>period_min_tuned := p\<rparr>" by blast
  then show ?thesis by simp
qed

lemmas period_only = period_only_mqtt_on period_only_http_on period_only_dhcp_off
  period_only_channel0

lemma run_gate:
  "flag (sett (fl (run xs st))) = 0 \<Longrightarrow>
     run (xs @ fl # when_flag flag G # ys) st = run (xs @ fl # ys) st"
  by (simp add: run_def when_flag_def)

lemma flag_after:
  "(\<And>f s. flag (upd f s) = f (flag s)) \<Longrightarrow>
   flag (sett (apply_flag P doc key upd st)) =
     (if isNull (getMember doc key) then flag (sett st)
      else of_bool (as_bool P (getMember doc key)))"
  by (simp add: apply_flag_def)

lemma closed_gate:
  assumes split: "steps = xs @ apply_flag P doc fk upd # when_flag flag G # ys"
    and split': "steps' = xs @ apply_flag P doc fk upd # when_flag flag G' # ys"
    and upd: "\<And>f s. flag (upd f s) = f (flag s)"
    and xs: "list_all (keeps flag) xs"
    and closed: "if isNull (getMember doc fk) then flag (sett st) = 0
                 else \<not> as_bool P (getMember doc fk)"
  shows "run steps st = run steps' st"
proof -
  have "flag (sett (run xs st)) = flag (sett st)"
    using keeps_run[OF xs] by (simp add: keeps_def)
  then have z: "flag (sett (apply_flag P doc fk upd (run xs st))) = 0"
    using closed by (simp add: flag_after[of flag upd, OF upd] split: if_splits)
  show ?thesis
    unfolding split split' using z by (simp add: run_gate)
qed

lemma gate_mqtt:
  assumes tp: "touches_period_only P"
    and key: "key \<in> set [''mqtt_host'', ''mqtt_port'', ''mqtt_login'', ''mqtt_password'',
                           ''mqtt_topic'']"
    and closed: "if isNull (getMember doc ''mqtt_on'') then mqtt_on (sett st) = 0
                 else \<not> as_bool P (getMember doc ''mqtt_on'')"
  shows "run (config_steps P doc data) st = run (config_steps P (doc(key := None)) data) st"
proof -
  let ?xs = "take 15 (config_steps P doc data)"
  let ?ys = "drop 17 (config_steps P doc data)"
  let ?G = "\<lambda>d. [APPLY_CFG_STR P d ''mqtt_host'' mqtt_host_update (HOST_LEN P),
         APPLY_CFG_NUM d ''mqtt_port'' (as_uint16 P) mqtt_port_update 1 65535,
         APPLY_CFG_STR P d ''mqtt_login'' mqtt_login_update (MQTT_LOGIN_LEN P),
         APPLY_CFG_STR P d ''mqtt_password'' mqtt_password_update (MQTT_PASSWORD_LEN P),
         APPLY_CFG_STR P d ''mqtt_topic'' mqtt_topic_update (MQTT_TOPIC_LEN P)]"
  have s1: "config_steps P doc data =
      ?xs @ apply_flag P doc ''mqtt_on'' mqtt_on_update # when_flag mqtt_on (?G doc) # ?ys"
    by (simp add: config_steps_def)
  have s2: "config_steps P (doc(key := None)) data =
      ?xs @ apply_flag P doc ''mqtt_on'' mqtt_on_update
         # when_flag mqtt_on (?G (doc(key := None))) # ?ys"
    using key by (auto simp: config_steps_def other_key)
  have xs: "list_all (keeps mqtt_on) ?xs"
    using tp by (simp add: config_steps_def keeps_steps period_only)
  show ?thesis
    by (rule closed_gate[OF s1 s2 _ xs closed]) simp
qed

lemma gate_http:
  assumes tp: "touches_period_only P"
    and key: "key = ''http_url''"
    and closed: "if isNull (getMember doc ''http_on'') then http_on (sett st) = 0
                 else \<not> as_bool P (getMember doc ''http_on'')"
  shows "run (config_steps P doc data) st = run (config_steps P (doc(key := None)) data) st"
proof -
  let ?xs = "take 17 (config_steps P doc data)"
  let ?ys = "drop 19 (config_steps P doc data)"
  let ?G = "\<lambda>d. [APPLY_CFG_STR P d ''http_url'' http_url_update (HOST_LEN P)]"
  have s1: "config_steps P doc data =
      ?xs @ apply_flag P doc ''http_on'' http_on_update # when_flag http_on (?G doc) # ?ys"
    by (simp add: config_steps_def)
  have s2: "config_steps P (doc(key := None)) data =
      ?xs @ apply_flag P doc ''http_on'' http_on_update
         # when_flag http_on (?G (doc(key := None))) # ?ys"
    using key by (auto simp: config_steps_def other_key)
  have xs: "list_all (keeps http_on) ?xs"
    using tp by (simp add: config_steps_def keeps_steps period_only)
  show ?thesis
    by (rule closed_gate[OF s1 s2 _ xs closed]) simp
qed

lemma gate_dhcp:
  assumes tp: "touches_period_only P"
    and key: "key \<in> set [''static_ip'', ''gateway'', ''mask'']"
    and closed: "if isNull (getMember doc ''dhcp_off'') then dhcp_off (sett st) = 0
                 else \<not> as_bool P (getMember doc ''dhcp_off'')"
  shows "run (config_steps P doc data) st = run (config_steps P (doc(key := None)) data) st"
proof -
  let ?xs = "take 28 (config_steps P doc data)"
  let ?ys = "drop 30 (config_steps P doc data)"
  let ?G = "\<lambda>d. [apply_address P d ''static_ip'' ip_update,
         apply_address P d ''gateway'' gateway_update,
         apply_address P d ''mask'' mask_addr_update]"
  have s1: "config_steps P doc data =
      ?xs @ apply_flag P doc ''dhcp_off'' dhcp_off_update # when_flag dhcp_off (?G doc) # ?ys"
    by (simp add: config_steps_def)
  have s2: "config_steps P (doc(key := None)) data =
      ?xs @ apply_flag P doc ''dhcp_off'' dhcp_off_update
         # when_flag dhcp_off (?G (doc(key := None))) # ?ys"
    using key by (auto simp: config_steps_def other_key)
  have xs: "list_all (keeps dhcp_off) ?xs"
    using tp by (simp add: config_steps_def keeps_steps period_only)
  show ?thesis
    by (rule closed_gate[OF s1 s2 _ xs closed]) simp
qed

lemma gate_closed_steps:
  assumes tp: "touches_period_only P" and ng: "\<not> gate_holds P s doc key" and st: "sett st = s"
  shows "run (config_steps P doc data) st = run (config_steps P (doc(key := None)) data) st"
proof -
  consider (mqtt) "key \<in> set [''mqtt_host'', ''mqtt_port'', ''mqtt_login'', ''mqtt_password'',
                           ''mqtt_topic'']"
    | (http) "key = ''http_url''"
    | (dhcp) "key \<in> set [''static_ip'', ''gateway'', ''mask'']"
    using ng by (auto simp: gate_holds_def gate_of_def split: if_splits)
  then show ?thesis
  proof cases
    case mqtt
    then have "gate_of key = Some (''mqtt_on'', mqtt_on)"
      by (auto simp: gate_of_def)
    with ng st have "if isNull (getMember doc ''mqtt_on'') then mqtt_on (sett st) = 0
                 else \<not> as_bool P (getMember doc ''mqtt_on'')"
      by (simp add: gate_holds_def split: if_splits)
    then show ?thesis by (rule gate_mqtt[OF tp mqtt])
  next
    case http
    then have "gate_of key = Some (''http_on'', http_on)"
      by (auto simp: gate_of_def)
    with ng st have "if isNull (getMember doc ''http_on'') then http_on (sett st) = 0
                 else \<not> as_bool P (getMember doc ''http_on'')"
      by (simp add: gate_holds_def split: if_splits)
    then show ?thesis by (rule gate_http[OF tp http])
  next
    case dhcp
    then have "gate_of key = Some (''dhcp_off'', dhcp_off)"
      by (auto simp: gate_of_def)
    with ng st have "if isNull (getMember doc ''dhcp_off'') then dhcp_off (sett st) = 0
                 else \<not> as_bool P (getMember doc ''dhcp_off'')"
      by (simp add: gate_holds_def split: if_splits)
    then show ?thesis by (rule gate_dhcp[OF tp dhcp])
  qed
qed

lemma channel0_kept:
  assumes tp: "touches_period_only P"
  shows "channel0_start (fst (snd (apply_config_from_server P s (doc(''channel0'' := None)) data)))
           = channel0_start s"
proof -
  have "list_all (keeps channel0_start) (config_steps P (doc(''channel0'' := None)) data)"
    using tp
    by (simp add: config_steps_def keeps_steps period_only NUM_skipped isNull_removed)
  from keeps_run[OF this] show ?thesis
    by (simp add: apply_config_from_server_def keeps_def Let_def)
qed

subsection \<open>Helper facts about the heartbeat threshold\<close>

lemma threshold_word:
  fixes w :: "16 word"
  assumes w: "w \<noteq> 0"
  shows "unat (of_int ((24 * 60) div uint w) :: 16 word) = 1440 div unat w"
proof -
  have wpos: "0 < uint w"
    using w by (simp add: word_neq_0_conv word_less_def)
  have q0: "0 \<le> 1440 div uint w"
    using wpos by (simp add: pos_imp_zdiv_nonneg_iff)
  have "1440 div uint w \<le> 1440"
    using wpos by (simp add: zdiv_mono2[of 1440 1 "uint w", simplified])
  then have q1: "1440 div uint w < 65536" by simp
  have "uint (of_int (1440 div uint w) :: 16 word) = 1440 div uint w"
    using q0 q1 by (simp add: uint_word_of_int)
  then have "unat (of_int (1440 div uint w) :: 16 word) = nat (1440 div uint w)"
    by (simp only: unat_eq_nat_uint)
  also have "\<dots> = 1440 div unat w"
    by (simp add: nat_div_distrib)
  finally show ?thesis by simp
qed

lemma heartbeat_needed_iff:
  fixes w c :: "16 word"
  assumes w: "w \<noteq> 0"
  shows "(c \<ge> (if (of_int ((24 * 60) div uint w) :: 16 word) = 0 then 1
                else of_int ((24 * 60) div uint w)))
         \<longleftrightarrow> \<not> unat c < heartbeat_threshold w"
proof -
  let ?m = "of_int ((24 * 60) div uint w) :: 16 word"
  have u: "unat ?m = 1440 div unat w" by (rule threshold_word[OF w])
  show ?thesis
  proof (cases "?m = 0")
    case True
    then have "1440 div unat w = 0" using u by simp
    then have "heartbeat_threshold w = 1" by (simp add: heartbeat_threshold_def)
    then show ?thesis using True by (auto simp: word_le_nat_alt not_less)
  next
    case False
    then have "unat ?m \<noteq> 0" by (simp add: unat_eq_0)
    then have "heartbeat_threshold w = unat ?m"
      using u by (simp add: heartbeat_threshold_def)
    then show ?thesis using False by (simp add: word_le_nat_alt not_less)
  qed
qed

lemma check_eq:
  fixes P :: "'z config_h_scheme"
  assumes w: "wakeup_per_min s \<noteq> 0"
  shows "wake_on_consumption_check P True wake_mode s data cdata =
           (if skip_expected P wake_mode s cdata then Inr (True, skipped s data)
            else Inr (False, s))"
proof -
  have t: "heartbeat_threshold (wakeup_per_min s) \<le> 1440"
    by (simp add: heartbeat_threshold_def)
  have sat: "wakeups_without_send s < 65535"
    if "unat (wakeups_without_send s) < heartbeat_threshold (wakeup_per_min s)"
    using that t by (simp add: word_less_nat_alt)
  show ?thesis
    using w sat heartbeat_needed_iff[OF w, of "wakeups_without_send s"]
    by (auto simp: wake_on_consumption_check_def skip_expected_def skipped_def Let_def
        word_greater_zero_iff)
qed

subsection \<open>Helper facts about the reboot-loop guard\<close>

lemma validate_quiet:
  "\<not> list_ex config_attempt (snd (snd (validate_and_get_response C h code buf)))
   \<and> \<not> list_ex is_store (snd (snd (validate_and_get_response C h code buf)))"
  by (simp add: validate_and_get_response_def Let_def)














lemma fetch_events_quiet:
  "fetch_config_from_server P url key net = Inr (fetched, doc, net', ev)
     \<Longrightarrow> \<not> list_ex is_store ev"
  using validate_quiet[of P]
  by (auto simp: fetch_config_from_server_def Let_def split: if_splits option.splits)






lemmas example_cycle_defs =
  loop_def transmit_def fetch_cfg_on_manual_wake_def ntp_sync_def
  wake_on_consumption_check_def send_waterius_def send_http_def send_and_check_def
  set_wakeup_period_def HTTP_SEND_ATTEMPTS_def numeral_3_eq_3 post_data_def POST_def going_to_sleep_def
  validate_and_get_response_def apply_config_from_response_def validate_device_key_def
  apply_config_from_server_def config_steps_def run_def when_flag_def
  APPLY_CFG_NUM_def APPLY_CFG_STR_def apply_flag_def apply_impulses_def
  apply_address_def apply_wakeup_per_min_def apply_counter_types_def
  fetch_and_apply_remote_config_def fetch_config_from_server_def
  getMember_def isNull_def startsWith_def endsWith_def
  example_platform_def example_board_def example_settings_def example_data_def
  example_deserializeJson_def example_serializeJson_def example_body_config_def
  example_body_wrong_key_def

subsection \<open>Helper facts about floating-point rounding\<close>

lemmas round_binary_defs =
  binary32_def binary64_def round_binary_def binade_def scale2_def round_ties_even_def
  compute_bitlen Let_def

text \<open>
  Rounding is to a nearest integer, an integer is left as it is, and \<open>binade\<close> finds
  the power of two below a positive number.
\<close>

lemma round_ties_even_nearest: "\<bar>real_of_int (round_ties_even r) - r\<bar> \<le> 1 / 2"
  unfolding round_ties_even_def Let_def by (auto; linarith)

lemma round_ties_even_int: "round_ties_even (of_int i) = i"
  by (simp add: round_ties_even_def)

lemma binade_bounds:
  assumes "0 < x"
  shows "scale2 1 (binade x) \<le> x \<and> x < scale2 1 (binade x + 1)"
proof (cases "1 \<le> x")
  case True
  then have f: "0 < \<lfloor>x\<rfloor>" by linarith
  have b: "1 \<le> bitlen \<lfloor>x\<rfloor>" using f by (simp add: bitlen_alt_def)
  from bitlen_bounds[OF f]
  have l: "2 ^ nat (bitlen \<lfloor>x\<rfloor> - 1) \<le> \<lfloor>x\<rfloor>" and u: "\<lfloor>x\<rfloor> < 2 ^ nat (bitlen \<lfloor>x\<rfloor>)"
    by simp_all
  have "real_of_int (2 ^ nat (bitlen \<lfloor>x\<rfloor> - 1)) \<le> of_int \<lfloor>x\<rfloor>"
    using l of_int_le_iff by blast
  then have "(2::real) ^ nat (bitlen \<lfloor>x\<rfloor> - 1) \<le> of_int \<lfloor>x\<rfloor>"
    by simp
  also have "\<dots> \<le> x" by simp
  finally have l': "(2::real) ^ nat (bitlen \<lfloor>x\<rfloor> - 1) \<le> x" .
  have "\<lfloor>x\<rfloor> + 1 \<le> 2 ^ nat (bitlen \<lfloor>x\<rfloor>)" using u by simp
  then have "real_of_int (\<lfloor>x\<rfloor> + 1) \<le> real_of_int (2 ^ nat (bitlen \<lfloor>x\<rfloor>))"
    using of_int_le_iff by blast
  then have "real_of_int \<lfloor>x\<rfloor> + 1 \<le> (2::real) ^ nat (bitlen \<lfloor>x\<rfloor>)"
    by simp
  moreover have "x < real_of_int \<lfloor>x\<rfloor> + 1" by linarith
  ultimately have u': "x < (2::real) ^ nat (bitlen \<lfloor>x\<rfloor>)" by linarith
  show ?thesis using True l' u' b by (simp add: binade_def scale2_def)
next
  case False
  then have x1: "x < 1" by simp
  define c where "c = \<lceil>1 / x\<rceil> - 1"
  have ix: "1 < 1 / x" using assms x1 by simp
  have c0: "0 < c" unfolding c_def using ix by linarith
  have b: "1 \<le> bitlen c" using c0 by (simp add: bitlen_alt_def)
  from bitlen_bounds[OF c0]
  have l: "2 ^ nat (bitlen c - 1) \<le> c" and u: "c < 2 ^ nat (bitlen c)"
    by simp_all
  have cl: "real_of_int c < 1 / x" unfolding c_def by linarith
  have cu: "1 / x \<le> real_of_int c + 1" unfolding c_def by linarith
  have "real_of_int (2 ^ nat (bitlen c - 1)) \<le> of_int c"
    using l of_int_le_iff by blast
  then have "(2::real) ^ nat (bitlen c - 1) \<le> of_int c" by simp
  then have l': "(2::real) ^ nat (bitlen c - 1) < 1 / x" using cl by linarith
  have "c + 1 \<le> 2 ^ nat (bitlen c)" using u by simp
  then have "real_of_int (c + 1) \<le> real_of_int (2 ^ nat (bitlen c))"
    using of_int_le_iff by blast
  then have "real_of_int c + 1 \<le> (2::real) ^ nat (bitlen c)" by simp
  then have u': "1 / x \<le> (2::real) ^ nat (bitlen c)" using cu by linarith
  have lo: "1 / 2 ^ nat (bitlen c) \<le> x"
    using u' assms by (simp add: field_simps)
  have hi: "x < 1 / 2 ^ nat (bitlen c - 1)"
    using l' assms by (simp add: field_simps)
  show ?thesis
  proof (cases "bitlen c = 1")
    case True
    then show ?thesis using False lo hi x1 by (simp add: binade_def scale2_def c_def[symmetric])
  next
    case F2: False
    then have "2 \<le> bitlen c" using b by simp
    then have "nat (- (1 - bitlen c)) = nat (bitlen c - 1)" by simp
    then show ?thesis using False lo hi F2 b
      by (simp add: binade_def scale2_def c_def[symmetric])
  qed
qed

text \<open>
  The values of the push update of 12.345, and a product that binary32 cannot hold:
  999999 * 1000 becomes 999998976.
\<close>

lemma binary32_payload: "binary32 (12345 / 1000) = 12944671 / 1048576"
  by (simp add: round_binary_defs)

lemma binary32_product: "binary32 (12944671 / 1048576 * 1000) = 12345"
  by (simp add: round_binary_defs)

lemma binary32_sum: "binary32 (12345 + 5) = 12350"
  by (simp add: round_binary_defs)

lemma binary64_echo: "binary64 (12350 / 1000) = 6952431924753203 / 562949953421312"
  by (simp add: round_binary_defs)

lemma binary32_large_product: "binary32 (999999 * 1000) = 999998976"
  by (simp add: round_binary_defs)

text \<open>The \<^verbatim>\<open>ch0\<close> branch of \<^verbatim>\<open>update_settings\<close>, step by step.\<close>

lemma update_settings_ch0:
  fixes P :: "'z platform_scheme"
  assumes "endsWith topic ''/set''" "topic_param topic = ''ch0''"
    and "toFloat P payload = c" "0 \<le> c"
    and "binary32 (c * 1000) = scaled" "binary32 (scaled + 5) = biased"
    and "finite32 scaled" "finite32 biased" "float_to_int biased = Some n"
    and "is_float P (getMember (json_data w) ''ch0'')"
  shows "update_settings P topic payload data w =
           Inr (True,
             w\<lparr>s_sett := (s_sett w)\<lparr>channel0_start := c, impulses0_start := impulses0 data,
                                   setup_time := 0\<rparr>,
               json_data := (json_data w)(''ch0'' \<mapsto> JFloat (binary64 (real_of_int n / 1000))),
               mqtt_ctx := MqttCounterContext_init (mqtt_ctx w) data\<rparr>)"
proof -
  have p: "substring topic
      (nat (lastIndexOf topic CHR ''/''
              (lastIndexOf topic CHR ''/'' (int (length topic) - 1) - 1) + 1))
      (nat (lastIndexOf topic CHR ''/'' (int (length topic) - 1))) = ''ch0''"
    using assms(2) by (simp add: topic_param_def Let_def)
  show ?thesis
    using assms by (simp add: update_settings_def Let_def p)
qed

text \<open>
  At a large reading the rounding of \<^verbatim>\<open>float\<close> shows: a payload read as 999999 is
  echoed as 999998.976.
\<close>

lemma update_settings_ch0_large:
  fixes P :: "'z platform_scheme"
  assumes "endsWith topic ''/set''" "topic_param topic = ''ch0''"
    and "toFloat P payload = 999999"
    and "is_float P (getMember (json_data w) ''ch0'')"
  shows "update_settings P topic payload data w =
           Inr (True,
             w\<lparr>s_sett := (s_sett w)\<lparr>channel0_start := 999999,
                                   impulses0_start := impulses0 data, setup_time := 0\<rparr>,
               json_data := (json_data w)
                  (''ch0'' \<mapsto> JFloat (binary64 (real_of_int 999998976 / 1000))),
               mqtt_ctx := MqttCounterContext_init (mqtt_ctx w) data\<rparr>)"
proof -
  have s: "binary32 (999998976 + 5) = 999998976"
    by (simp add: round_binary_defs)
  have n: "float_to_int 999998976 = Some 999998976"
    by (simp add: float_to_int_def)
  have fin: "finite32 999998976"
    by (simp add: finite32_def)
  show ?thesis
    by (rule update_settings_ch0[OF assms(1-3) _ binary32_large_product s fin fin n assms(4)])
      simp
qed

subsection \<open>Key authenticator\<close>

text \<open>
  C1, as the code has it. \<^verbatim>\<open>validate_device_key\<close> succeeds exactly when the document
  has a member \<^verbatim>\<open>key\<close> that is not null and whose value, converted by
  \<^verbatim>\<open>as<String>()\<close>, equals the device key. For a member that is a string,
  \<^verbatim>\<open>as<String>()\<close> being the identity on strings, this is: the string is the device key,
  character for character. A missing or null member fails. When the authenticator fails
  the caller returns false with the settings as they were, and none of the merge
  engine's effects happens: this holds on the pull path
  (\<^verbatim>\<open>fetch_and_apply_remote_config\<close>, also when the fetch itself fails) and on the path
  of a document embedded in a response (\<^verbatim>\<open>apply_config_from_response\<close>).
\<close>

theorem key_authentication:
  fixes P :: "'z platform_scheme"
  shows "(fst (validate_device_key P doc key) \<longleftrightarrow>
           (\<exists>v. doc ''key'' = Some v \<and> v \<noteq> JNull \<and> as_String P v = key))
    \<and> ((\<forall>s. as_String P (JString s) = s) \<longrightarrow>
          (\<forall>s. doc ''key'' = Some (JString s) \<longrightarrow>
               (fst (validate_device_key P doc key) \<longleftrightarrow> s = key)))
    \<and> (doc ''key'' = None \<or> doc ''key'' = Some JNull \<longrightarrow>
          \<not> fst (validate_device_key P doc key))
    \<and> (\<forall>fetched net' ev.
          fetch_config_from_server P url key net = Inr (fetched, doc, net', ev) \<and>
          \<not> (fetched \<and> fst (validate_device_key P doc key)) \<longrightarrow>
          (\<exists>evs. fetch_and_apply_remote_config P url key s data net = Inr (False, s, net', evs)
                 \<and> \<not> list_ex merge_effect evs))
    \<and> (deserializeJson P body = Some doc \<and> \<not> fst (validate_device_key P doc key) \<longrightarrow>
          (\<exists>evs. apply_config_from_response P body key s data = (False, s, evs)
                 \<and> \<not> list_ex merge_effect evs))"
proof (intro conjI allI impI)
  show "fst (validate_device_key P doc key) \<longleftrightarrow>
          (\<exists>v. doc ''key'' = Some v \<and> v \<noteq> JNull \<and> as_String P v = key)"
    by (auto simp: validate_device_key_def getMember_def isNull_def Let_def
        split: option.splits)
next
  fix t
  assume "\<forall>s. as_String P (JString s) = s" and "doc ''key'' = Some (JString t)"
  then show "fst (validate_device_key P doc key) \<longleftrightarrow> t = key"
    by (simp add: validate_device_key_def getMember_def isNull_def Let_def)
next
  assume "doc ''key'' = None \<or> doc ''key'' = Some JNull"
  then show "\<not> fst (validate_device_key P doc key)"
    by (auto simp: validate_device_key_def getMember_def isNull_def Let_def)
next
  fix fetched net' ev
  assume a: "fetch_config_from_server P url key net = Inr (fetched, doc, net', ev) \<and>
    \<not> (fetched \<and> fst (validate_device_key P doc key))"
  then have ev: "\<not> list_ex merge_effect ev"
    using fetch_events by blast
  show "\<exists>evs. fetch_and_apply_remote_config P url key s data net = Inr (False, s, net', evs)
          \<and> \<not> list_ex merge_effect evs"
    using a ev auth_events[of P doc key]
    by (auto simp: fetch_and_apply_remote_config_def Let_def)
next
  assume a: "deserializeJson P body = Some doc \<and> \<not> fst (validate_device_key P doc key)"
  show "\<exists>evs. apply_config_from_response P body key s data = (False, s, evs)
          \<and> \<not> list_ex merge_effect evs"
    using a auth_events[of P doc key]
    by (auto simp: apply_config_from_response_def Let_def)
qed

text \<open>
  The theorem at a reply whose document carries another key and a new \<^verbatim>\<open>channel0\<close>:
  the conversion of the example platform is the identity on strings, the authenticator
  fails, and both paths return false and leave the settings alone.
\<close>

theorem key_authentication_witness:
  "(\<forall>s. as_String example_platform (JString s) = s)
   \<and> fst (validate_device_key example_platform
          [''key'' \<mapsto> JString ''not-the-key'', ''channel0'' \<mapsto> JInt 5] ''device-key'') = False
   \<and> fetch_and_apply_remote_config example_platform ''https://cloud.waterius.ru''
        ''device-key'' example_settings example_data
        [(200, \<lparr>getSize = 37, getString = example_body_wrong_key\<rparr>)]
      = Inr (False, example_settings, [],
          [HTTP_POST ''https://cloud.waterius.ru/cfg''
             (example_serializeJson [''key'' \<mapsto> JString ''device-key'']),
           HTTP_getSize, HTTP_getString,
           LOG ''RCFG: Configuration successfully received and parsed'',
           LOG ''RCFG: Authorization failed - key mismatch!''])
   \<and> apply_config_from_response example_platform example_body_wrong_key ''device-key''
        example_settings example_data
      = (False, example_settings, [LOG ''RCFG: Authorization failed - key mismatch!''])"
  using key_authentication[of example_platform
      "[''key'' \<mapsto> JString ''not-the-key'', ''channel0'' \<mapsto> JInt 5]" "''device-key''"
      "''https://cloud.waterius.ru''" "[(200, \<lparr>getSize = 37, getString = example_body_wrong_key\<rparr>)]"
      example_settings example_data example_body_wrong_key]
  by (simp add: fetch_and_apply_remote_config_def fetch_config_from_server_def
      apply_config_from_response_def validate_device_key_def validate_and_get_response_def
      example_platform_def example_deserializeJson_def example_body_wrong_key_def
      getMember_def isNull_def POST_def endsWith_def startsWith_def Let_def)

text \<open>
  C1 as stated fails: the member need not equal the key, nor be a string. The
  authenticator compares what \<^verbatim>\<open>as<String>()\<close> makes of the member and never asks
  \<^verbatim>\<open>is<String>()\<close>, and \<^verbatim>\<open>as<String>()\<close> gives the JSON text of a value that is not a
  string. A document whose \<^verbatim>\<open>key\<close> is the number 12345 authenticates against the device
  key \<^verbatim>\<open>12345\<close>, and one whose \<^verbatim>\<open>key\<close> is the boolean true against the device key
  \<^verbatim>\<open>true\<close>.
\<close>

theorem key_member_not_a_string:
  "fst (validate_device_key example_platform [''key'' \<mapsto> JInt 12345] ''12345'')
   \<and> JInt 12345 \<noteq> JString ''12345''
   \<and> fst (validate_device_key example_platform [''key'' \<mapsto> JBool True] ''true'')
   \<and> JBool True \<noteq> JString ''true''"
  by (simp add: validate_device_key_def getMember_def isNull_def example_platform_def
      Let_def)

subsection \<open>Bounded response validator\<close>

text \<open>
  C2. The validator accepts a response exactly when the status code is 200, the declared
  Content-Length is strictly positive and it does not exceed \<^verbatim>\<open>REMOTE_CONFIG_MAX_SIZE\<close>.
  The checks run in that order: with a status other than 200 the size is not even asked
  for, and a non-positive size is reported before the ceiling is looked at. The body is
  read (\<^verbatim>\<open>getString\<close>) exactly when all three checks pass, and then it is what is
  returned; every failed check rejects without reading the body.
\<close>

theorem validate_and_get_response_policy:
  fixes C :: "'z config_h_scheme" and h :: HTTPClient and code :: int and buf :: string
  defines "r \<equiv> validate_and_get_response C h code buf"
  shows "(fst r \<longleftrightarrow> code = 200 \<and> 0 < getSize h \<and> getSize h \<le> int (REMOTE_CONFIG_MAX_SIZE C))
    \<and> (HTTP_getString \<in> set (snd (snd r)) \<longleftrightarrow> fst r)
    \<and> (fst r \<longrightarrow> fst (snd r) = getString h \<and> snd (snd r) = [HTTP_getSize, HTTP_getString])
    \<and> (code \<noteq> 200 \<longrightarrow> r = (False, [], [LOG ''Response code is not 200'']))
    \<and> (code = 200 \<and> getSize h \<le> 0 \<longrightarrow>
          r = (False, [], [HTTP_getSize, LOG ''Server did not provide Content-Length header'']))
    \<and> (code = 200 \<and> 0 < getSize h \<and> int (REMOTE_CONFIG_MAX_SIZE C) < getSize h \<longrightarrow>
          r = (False, [], [HTTP_getSize, LOG ''Response too large'']))"
  unfolding r_def validate_and_get_response_def Let_def by auto

text \<open>
  The theorem at four replies: one of 37 bytes with status 200, one with status 404, one
  without a Content-Length, and one that declares 2049 bytes against a ceiling of 2048.
\<close>

theorem validate_and_get_response_policy_witness:
  "validate_and_get_response example_platform
      \<lparr>getSize = 37, getString = example_body_config\<rparr> 200 ''stale''
     = (True, example_body_config, [HTTP_getSize, HTTP_getString])
   \<and> validate_and_get_response example_platform
      \<lparr>getSize = 37, getString = example_body_config\<rparr> 404 ''stale''
     = (False, [], [LOG ''Response code is not 200''])
   \<and> validate_and_get_response example_platform
      \<lparr>getSize = - 1, getString = example_body_config\<rparr> 200 ''stale''
     = (False, [], [HTTP_getSize, LOG ''Server did not provide Content-Length header''])
   \<and> validate_and_get_response example_platform
      \<lparr>getSize = 2049, getString = example_body_config\<rparr> 200 ''stale''
     = (False, [], [HTTP_getSize, LOG ''Response too large''])"
  using
    validate_and_get_response_policy[of example_platform
      "\<lparr>getSize = 37, getString = example_body_config\<rparr>" 200 "''stale''"]
    validate_and_get_response_policy[of example_platform
      "\<lparr>getSize = 37, getString = example_body_config\<rparr>" 404 "''stale''"]
    validate_and_get_response_policy[of example_platform
      "\<lparr>getSize = - 1, getString = example_body_config\<rparr>" 200 "''stale''"]
    validate_and_get_response_policy[of example_platform
      "\<lparr>getSize = 2049, getString = example_body_config\<rparr>" 200 "''stale''"]
  by (simp add: example_platform_def prod_eq_iff)

text \<open>
  C10. Whatever the caller's buffer held, a rejection (status not 200, declared size
  missing or not positive, declared size over the ceiling) leaves the empty string in it
  and returns false, and the result does not depend on the old content. The function
  returns true exactly when it has read the body, and then the buffer holds that body.
\<close>

theorem validate_and_get_response_no_stale_body:
  fixes C :: "'z config_h_scheme" and h :: HTTPClient and code :: int and buf :: string
  defines "r \<equiv> validate_and_get_response C h code buf"
  shows "(\<not> fst r \<longrightarrow> fst (snd r) = [])
    \<and> (code \<noteq> 200 \<or> getSize h \<le> 0 \<or> int (REMOTE_CONFIG_MAX_SIZE C) < getSize h
          \<longrightarrow> \<not> fst r \<and> fst (snd r) = [])
    \<and> (fst r \<longleftrightarrow> HTTP_getString \<in> set (snd (snd r)) \<and> fst (snd r) = getString h)
    \<and> r = validate_and_get_response C h code buf'"
  unfolding r_def validate_and_get_response_def Let_def by auto

text \<open>The theorem at a reply with status 500 and a buffer that still holds an old body.\<close>

theorem validate_and_get_response_no_stale_body_witness:
  "validate_and_get_response example_platform
      \<lparr>getSize = 37, getString = example_body_config\<rparr> 500 example_body_wrong_key
     = (False, [], [LOG ''Response code is not 200''])
   \<and> validate_and_get_response example_platform
      \<lparr>getSize = 37, getString = example_body_config\<rparr> 200 example_body_wrong_key
     = (True, example_body_config, [HTTP_getSize, HTTP_getString])"
  using
    validate_and_get_response_no_stale_body[of example_platform
      "\<lparr>getSize = 37, getString = example_body_config\<rparr>" 500 example_body_wrong_key]
    validate_and_get_response_no_stale_body[of example_platform
      "\<lparr>getSize = 37, getString = example_body_config\<rparr>" 200 example_body_wrong_key]
  by (simp add: validate_and_get_response_def example_platform_def)

subsection \<open>Counter-type pair\<close>

text \<open>
  C4. The events of a merge are the line logged on entry followed by what the
  counter-type block adds: nothing when the document has neither \<^verbatim>\<open>ctype0\<close> nor
  \<^verbatim>\<open>ctype1\<close>, one line \<^verbatim>\<open>bad ctype\<close> when a target value is outside the enumeration,
  and otherwise exactly one call \<^verbatim>\<open>setCountersType(ct0, ct1)\<close> with both target values.
  So the peripheral is never asked for one counter alone. When the pair is not accepted
  (in particular when that one call fails) the returned flag and the settings are those of
  the same document without \<^verbatim>\<open>ctype0\<close> and \<^verbatim>\<open>ctype1\<close>: the pair contributes nothing to
  \<^verbatim>\<open>config_changed\<close> and every other field applies as it would have. When the pair is
  accepted the merge reports a change.
\<close>

theorem counter_type_pair_atomic:
  fixes P :: "'z platform_scheme" and s :: Settings and doc :: JsonDocument and data :: AttinyData
  defines "r \<equiv> apply_config_from_server P s doc data"
  defines "r' \<equiv> apply_config_from_server P s (doc(''ctype0'' := None, ''ctype1'' := None)) data"
  shows "snd (snd r) = LOG ''RCFG: Applying config...'' # ct_events P doc data
     \<and> (ct_present doc \<and> permitted P (ct_target0 P doc data)
          \<and> permitted P (ct_target1 P doc data) \<longrightarrow>
        snd (snd r) = [LOG ''RCFG: Applying config...'',
                       I2C_setCountersType (ct_target0 P doc data) (ct_target1 P doc data)])
     \<and> (\<not> ct_accepted P doc data \<longrightarrow> fst r = fst r' \<and> fst (snd r) = fst (snd r'))
     \<and> (ct_accepted P doc data \<longrightarrow> fst r)"
proof -
  let ?st0 = "\<lparr>sett = s, config_changed = False, events = [LOG ''RCFG: Applying config...'']\<rparr>"
  let ?st1 = "run (steps_before P doc data) ?st0"
  have r: "r = (config_changed (run (steps_after P doc data)
                  (?st1\<lparr>config_changed := config_changed ?st1 \<or> ct_accepted P doc data\<rparr>)),
                sett (run (steps_after P doc data)
                  (?st1\<lparr>config_changed := config_changed ?st1 \<or> ct_accepted P doc data\<rparr>)),
                [LOG ''RCFG: Applying config...''] @ ct_events P doc data)"
    unfolding r_def by (rule apply_config_form)
  have na: "\<not> ct_accepted P (doc(''ctype0'' := None, ''ctype1'' := None)) data"
    by (simp add: ct_accepted_def ct_present_def getMember_def isNull_def)
  have r': "r' = (config_changed (run (steps_after P doc data) ?st1),
                sett (run (steps_after P doc data) ?st1),
                [LOG ''RCFG: Applying config...'']
                  @ ct_events P (doc(''ctype0'' := None, ''ctype1'' := None)) data)"
    unfolding r'_def using na
    by (simp add: apply_config_form before_without_ctypes after_without_ctypes)
  have g: "grows (run (steps_after P doc data))"
    by (rule grows_run[OF grows_after])
  show ?thesis
  proof (intro conjI impI)
    show "snd (snd r) = LOG ''RCFG: Applying config...'' # ct_events P doc data"
      by (simp add: r)
    show "snd (snd r) = [LOG ''RCFG: Applying config...'',
                       I2C_setCountersType (ct_target0 P doc data) (ct_target1 P doc data)]"
      if "ct_present doc \<and> permitted P (ct_target0 P doc data)
          \<and> permitted P (ct_target1 P doc data)"
      using that by (simp add: r ct_events_def)
    show "fst r = fst r'" if "\<not> ct_accepted P doc data"
      using that by (simp add: r r')
    show "fst (snd r) = fst (snd r')" if "\<not> ct_accepted P doc data"
      using that by (simp add: r r')
    show "fst r" if "ct_accepted P doc data"
      using that g by (simp add: r grows_def)
  qed
qed

text \<open>
  The theorem at a document with \<^verbatim>\<open>ctype0 = NAMUR\<close>, \<^verbatim>\<open>ctype1 = ELECTRONIC\<close> and
  \<^verbatim>\<open>factor0 = 10\<close>, on a peripheral that refuses the pair: one call with both values,
  and the result is that of the document with \<^verbatim>\<open>factor0\<close> alone.
\<close>

theorem counter_type_pair_atomic_witness:
  "apply_config_from_server (example_platform\<lparr>setCountersType := (\<lambda>ct0 ct1. False)\<rparr>)
      example_settings
      [''ctype0'' \<mapsto> JInt 0, ''ctype1'' \<mapsto> JInt 2, ''factor0'' \<mapsto> JInt 10] example_data
     = (True, example_settings\<lparr>factor0 := 10\<rparr>,
        [LOG ''RCFG: Applying config...'', I2C_setCountersType 0 2])
   \<and> apply_config_from_server (example_platform\<lparr>setCountersType := (\<lambda>ct0 ct1. False)\<rparr>)
      example_settings [''factor0'' \<mapsto> JInt 10] example_data
     = (True, example_settings\<lparr>factor0 := 10\<rparr>, [LOG ''RCFG: Applying config...''])"
  using counter_type_pair_atomic[where
      P = "example_platform\<lparr>setCountersType := (\<lambda>ct0 ct1. False)\<rparr>"
      and s = example_settings and data = example_data
      and doc = "[''ctype0'' \<mapsto> JInt 0, ''ctype1'' \<mapsto> JInt 2, ''factor0'' \<mapsto> JInt 10]"]
  by (simp add: apply_config_from_server_def config_steps_def run_def when_flag_def
      APPLY_CFG_NUM_def APPLY_CFG_STR_def apply_flag_def apply_impulses_def
      apply_address_def apply_wakeup_per_min_def apply_counter_types_def
      getMember_def isNull_def example_platform_def example_settings_def Let_def)

subsection \<open>Bounded fields\<close>

text \<open>
  C6, as the code has it. A bounded field that is missing or null, or whose value as
  ArduinoJson converts it to the type of the setting (\<^verbatim>\<open>as<T>()\<close>) is outside the
  declared inclusive bounds, is skipped: the merge returns exactly what it returns for the
  same document without that field, so every other field applies as it would have. The
  same holds for a gated field whose gate does not hold (given that
  \<^verbatim>\<open>reset_period_min_tuned\<close> changes \<^verbatim>\<open>period_min_tuned\<close> only). In particular a
  \<^verbatim>\<open>channel0\<close> that converts to a number outside \<open>[0, 999999]\<close> leaves
  \<^verbatim>\<open>channel0_start\<close> as it was. The code makes no check of the JSON type of a value.
\<close>

theorem field_skipped_alone:
  fixes P :: "'z platform_scheme" and s :: Settings and doc :: JsonDocument
    and data :: AttinyData and key :: string
  defines "without \<equiv> apply_config_from_server P s (doc(key := None)) data"
  shows "(key \<in> set (bounded_fields P) \<and>
          (isNull (getMember doc key) \<or> \<not> within_declared_bounds P key (getMember doc key))
            \<longrightarrow> apply_config_from_server P s doc data = without)
     \<and> (touches_period_only P \<and> \<not> gate_holds P s doc key
            \<longrightarrow> apply_config_from_server P s doc data = without)
     \<and> (touches_period_only P \<and> key = ''channel0'' \<and>
          \<not> (0 \<le> as_float P (getMember doc key) \<and> as_float P (getMember doc key) \<le> 999999)
            \<longrightarrow> apply_config_from_server P s doc data = without
                \<and> channel0_start (fst (snd (apply_config_from_server P s doc data)))
                    = channel0_start s)"
proof (intro conjI impI)
  assume a: "key \<in> set (bounded_fields P) \<and>
          (isNull (getMember doc key) \<or> \<not> within_declared_bounds P key (getMember doc key))"
  then show "apply_config_from_server P s doc data = without"
    using skipped_steps[of key P doc data]
    by (simp add: apply_config_from_server_def without_def)
next
  assume a: "touches_period_only P \<and> \<not> gate_holds P s doc key"
  then show "apply_config_from_server P s doc data = without"
    using gate_closed_steps[of P s doc key
        "\<lparr>sett = s, config_changed = False, events = [LOG ''RCFG: Applying config...'']\<rparr>" data]
    by (simp add: apply_config_from_server_def without_def)
next
  assume a: "touches_period_only P \<and> key = ''channel0'' \<and>
          \<not> (0 \<le> as_float P (getMember doc key) \<and> as_float P (getMember doc key) \<le> 999999)"
  then have b: "key \<in> set (bounded_fields P)"
    and c: "\<not> within_declared_bounds P key (getMember doc key)"
    by (auto simp: bounded_fields_def numeric_fields_def within_declared_bounds_def)
  show e: "apply_config_from_server P s doc data = without"
    using skipped_steps[of key P doc data] b c
    by (simp add: apply_config_from_server_def without_def)
  show "channel0_start (fst (snd (apply_config_from_server P s doc data))) = channel0_start s"
    using a channel0_kept[of P s doc data] unfolding e without_def by simp
qed

text \<open>
  The theorem at the document \<^verbatim>\<open>{channel0: 1000000, factor0: 10}\<close>, where
  \<^verbatim>\<open>channel0_start\<close> stays and \<^verbatim>\<open>factor0\<close> is applied, and at a document with
  \<^verbatim>\<open>mqtt_port\<close> while MQTT is off.
\<close>

theorem field_skipped_alone_witness:
  "touches_period_only example_platform
   \<and> apply_config_from_server example_platform example_settings
        [''channel0'' \<mapsto> JInt 1000000, ''factor0'' \<mapsto> JInt 10] example_data
      = (True, example_settings\<lparr>factor0 := 10\<rparr>, [LOG ''RCFG: Applying config...''])
   \<and> apply_config_from_server example_platform example_settings
        [''mqtt_port'' \<mapsto> JInt 8883, ''factor0'' \<mapsto> JInt 10] example_data
      = (True, example_settings\<lparr>factor0 := 10\<rparr>, [LOG ''RCFG: Applying config...''])"
proof -
  have t: "touches_period_only example_platform"
    unfolding touches_period_only_def example_platform_def
    by (simp, intro allI exI, rule refl)
  have g: "\<not> gate_holds example_platform example_settings
      [''mqtt_port'' \<mapsto> JInt 8883, ''factor0'' \<mapsto> JInt 10] ''mqtt_port''"
    by (simp add: gate_holds_def gate_of_def getMember_def isNull_def example_settings_def)
  have w: "apply_config_from_server example_platform example_settings
        [''factor0'' \<mapsto> JInt 10] example_data
      = (True, example_settings\<lparr>factor0 := 10\<rparr>, [LOG ''RCFG: Applying config...''])"
    by (simp add: apply_config_from_server_def config_steps_def run_def when_flag_def
      APPLY_CFG_NUM_def APPLY_CFG_STR_def apply_flag_def apply_impulses_def
      apply_address_def apply_wakeup_per_min_def apply_counter_types_def
      getMember_def isNull_def example_platform_def example_settings_def Let_def)
  have d1: "[''channel0'' \<mapsto> JInt 1000000, ''factor0'' \<mapsto> JInt 10](''channel0'' := None)
      = [''factor0'' \<mapsto> JInt (10::int)]"
    by (simp add: fun_eq_iff)
  have d2: "[''mqtt_port'' \<mapsto> JInt 8883, ''factor0'' \<mapsto> JInt 10](''mqtt_port'' := None)
      = [''factor0'' \<mapsto> JInt (10::int)]"
    by (simp add: fun_eq_iff)
  have c: "\<not> (0 \<le> as_float example_platform (getMember
      [''channel0'' \<mapsto> JInt 1000000, ''factor0'' \<mapsto> JInt 10] ''channel0'') \<and>
      as_float example_platform (getMember
      [''channel0'' \<mapsto> JInt 1000000, ''factor0'' \<mapsto> JInt 10] ''channel0'') \<le> 999999)"
    by (simp add: getMember_def example_platform_def)
  show ?thesis
    using t g c w
      field_skipped_alone[of "''channel0''" example_platform
        "[''channel0'' \<mapsto> JInt 1000000, ''factor0'' \<mapsto> JInt 10]" example_settings example_data]
      field_skipped_alone[of "''mqtt_port''" example_platform
        "[''mqtt_port'' \<mapsto> JInt 8883, ''factor0'' \<mapsto> JInt 10]" example_settings example_data]
    by (simp only: d1 d2 simp_thms)
qed

text \<open>
  C6 as stated fails: a field is applied although it is not correctly typed. With
  \<^verbatim>\<open>channel0\<close> a string that spells no number, \<^verbatim>\<open>as<float>()\<close> gives 0, which is
  within the bounds, so \<^verbatim>\<open>channel0_start\<close> becomes 0 and the merge reports a change.
\<close>

theorem field_type_not_checked:
  "apply_config_from_server example_platform example_settings
      [''channel0'' \<mapsto> JString ''abc''] example_data
     = (True, example_settings\<lparr>channel0_start := 0\<rparr>, [LOG ''RCFG: Applying config...''])"
  by (simp add: apply_config_from_server_def config_steps_def run_def when_flag_def
      APPLY_CFG_NUM_def APPLY_CFG_STR_def apply_flag_def apply_impulses_def
      apply_address_def apply_wakeup_per_min_def apply_counter_types_def
      getMember_def isNull_def example_platform_def example_settings_def Let_def)

subsection \<open>Push updates\<close>

text \<open>
  C9 fails on the echo. A push update whose topic ends in \<^verbatim>\<open>/set\<close> and names
  \<^verbatim>\<open>ch0\<close>, with a payload that \<^verbatim>\<open>toFloat\<close> reads as the \<^verbatim>\<open>float\<close> nearest to 12.345,
  sets \<^verbatim>\<open>channel0_start\<close> to that \<^verbatim>\<open>float\<close>, which is 12.345 to seven digits, and
  \<^verbatim>\<open>impulses0_start\<close> to the impulses of the cycle's peripheral data, and reports an
  update. The echo written to the JSON data is \<^verbatim>\<open>(int)(ch0 * 1000 + 5) / 1000.0\<close>: the
  product is the \<^verbatim>\<open>float\<close> 12345, the sum 12350, and the echo the \<^verbatim>\<open>double\<close> nearest to
  12.35. The value rounded to three decimal places is 12.345.
\<close>

theorem push_update_ch0:
  fixes P :: "'z platform_scheme"
  assumes topic: "endsWith topic ''/set''" "topic_param topic = ''ch0''"
    and v: "toFloat P payload = binary32 (12345 / 1000)"
    and has: "is_float P (getMember (json_data w) ''ch0'')"
  shows "update_settings P topic payload data w =
           Inr (True,
             w\<lparr>s_sett := (s_sett w)\<lparr>channel0_start := binary32 (12345 / 1000),
                                   impulses0_start := impulses0 data, setup_time := 0\<rparr>,
               json_data := (json_data w)(''ch0'' \<mapsto> JFloat (binary64 (12350 / 1000))),
               mqtt_ctx := MqttCounterContext_init (mqtt_ctx w) data\<rparr>)
         \<and> \<bar>binary32 (12345 / 1000) - 12345 / 1000\<bar> < 1 / 10 ^ 6
         \<and> \<bar>binary64 (12350 / 1000) - 12350 / 1000\<bar> < 1 / 10 ^ 15"
proof -
  have c: "toFloat P payload = 12944671 / 1048576"
    by (simp only: v binary32_payload)
  have n: "float_to_int 12350 = Some 12350"
    by (simp add: float_to_int_def)
  have fin: "finite32 12345" "finite32 12350"
    by (simp_all add: finite32_def)
  have "update_settings P topic payload data w =
           Inr (True,
             w\<lparr>s_sett := (s_sett w)\<lparr>channel0_start := 12944671 / 1048576,
                                   impulses0_start := impulses0 data, setup_time := 0\<rparr>,
               json_data := (json_data w)
                  (''ch0'' \<mapsto> JFloat (binary64 (real_of_int 12350 / 1000))),
               mqtt_ctx := MqttCounterContext_init (mqtt_ctx w) data\<rparr>)"
    by (rule update_settings_ch0[OF topic c _ binary32_product binary32_sum fin n has]) simp
  then have "update_settings P topic payload data w =
           Inr (True,
             w\<lparr>s_sett := (s_sett w)\<lparr>channel0_start := binary32 (12345 / 1000),
                                   impulses0_start := impulses0 data, setup_time := 0\<rparr>,
               json_data := (json_data w)(''ch0'' \<mapsto> JFloat (binary64 (12350 / 1000))),
               mqtt_ctx := MqttCounterContext_init (mqtt_ctx w) data\<rparr>)"
    by (simp only: binary32_payload of_int_numeral)
  moreover have "\<bar>binary32 (12345 / 1000) - 12345 / 1000\<bar> < 1 / 10 ^ 6"
    unfolding binary32_payload by simp
  moreover have "\<bar>binary64 (12350 / 1000) - 12350 / 1000\<bar> < 1 / 10 ^ 15"
    unfolding binary64_echo by simp
  ultimately show ?thesis by blast
qed

text \<open>
  The theorem at the topic \<^verbatim>\<open>waterius/1234/ch0/set\<close> with the payload \<^verbatim>\<open>12.345\<close>:
  the start reading becomes the \<^verbatim>\<open>float\<close> \<open>12944671 / 2 ^ 20\<close>, the baseline the 150
  impulses of the cycle, and the echo is the \<^verbatim>\<open>double\<close> \<open>6952431924753203 / 2 ^ 49\<close>,
  which is 12.35.
\<close>

theorem push_update_ch0_witness:
  "toFloat example_platform ''12.345'' = binary32 (12345 / 1000)
   \<and> update_settings example_platform ''waterius/1234/ch0/set'' ''12.345'' example_data
      \<lparr>s_sett = example_settings, json_data = [''ch0'' \<mapsto> JFloat 1],
       mqtt_ctx = \<lparr>ctype0 = - 1, ctype1 = - 1\<rparr>, calls = []\<rparr>
   = Inr (True,
      \<lparr>s_sett = example_settings\<lparr>channel0_start := 12944671 / 1048576,
                                 impulses0_start := 150, setup_time := 0\<rparr>,
       json_data = [''ch0'' \<mapsto> JFloat (6952431924753203 / 562949953421312)],
       mqtt_ctx = \<lparr>ctype0 = 0, ctype1 = 0\<rparr>, calls = []\<rparr>)"
proof -
  have t: "toFloat example_platform ''12.345'' = binary32 (12345 / 1000)"
    by (simp add: example_platform_def example_toFloat_def round_binary_defs)
  have topic: "endsWith ''waterius/1234/ch0/set'' ''/set''"
    "topic_param ''waterius/1234/ch0/set'' = ''ch0''"
    by (simp_all add: endsWith_def topic_param_def lastIndexOf_def substring_def Let_def)
  have has: "is_float example_platform
      (getMember (json_data \<lparr>s_sett = example_settings, json_data = [''ch0'' \<mapsto> JFloat 1],
         mqtt_ctx = \<lparr>ctype0 = - 1, ctype1 = - 1\<rparr>, calls = []\<rparr>) ''ch0'')"
    by (simp add: example_platform_def getMember_def)
  note r = push_update_ch0[OF topic t has, of example_data,
      unfolded binary32_payload binary64_echo]
  show ?thesis
    using r t by (simp add: example_data_def MqttCounterContext_init_def)
qed

subsection \<open>Source of the other counter type\<close>

text \<open>
  C5 fails on the merge engine. In a cycle whose peripheral data report the types
  \<open>(0, 0)\<close>, a push update sets \<^verbatim>\<open>ctype0\<close> to 2: \<^verbatim>\<open>update_settings\<close> submits \<open>(2, 0)\<close>,
  the other member coming from the session context, and the context then holds
  \<open>(2, 0)\<close>. A document with \<^verbatim>\<open>ctype1 = 255\<close> alone, merged later in that cycle, makes
  \<^verbatim>\<open>apply_config_from_server\<close> submit \<open>(0, 255)\<close>: its \<^verbatim>\<open>ctype0\<close> is the
  \<^verbatim>\<open>counter_type0\<close> of the peripheral data, not the 2 of the context.
\<close>

theorem merge_reads_stale_counter_type:
  "update_settings example_platform ''waterius/1234/ctype0/set'' ''2'' example_data
      \<lparr>s_sett = example_settings, json_data = Map.empty,
       mqtt_ctx = \<lparr>ctype0 = - 1, ctype1 = - 1\<rparr>, calls = []\<rparr>
   = Inr (True,
      \<lparr>s_sett = example_settings, json_data = Map.empty,
       mqtt_ctx = \<lparr>ctype0 = 2, ctype1 = 0\<rparr>, calls = [I2C_setCountersType 2 0]\<rparr>)
   \<and> apply_config_from_server example_platform example_settings
        [''ctype1'' \<mapsto> JInt 255] example_data
     = (True, example_settings,
        [LOG ''RCFG: Applying config...'', I2C_setCountersType 0 255])"
  by (simp add: update_settings_def endsWith_def lastIndexOf_def substring_def Let_def
      example_platform_def example_toInt_def example_data_def example_settings_def
      MqttCounterContext_init_def getMember_def isNull_def
      apply_config_from_server_def config_steps_def run_def when_flag_def
      APPLY_CFG_NUM_def APPLY_CFG_STR_def apply_flag_def apply_impulses_def
      apply_address_def apply_wakeup_per_min_def apply_counter_types_def)

subsection \<open>Heartbeat and wake-skip decision\<close>

text \<open>
  C7, as the code has it. With the configuration loaded and a wake period that is not 0,
  the check sets \<^verbatim>\<open>skip_transmission\<close> exactly when the wake is a scheduled one
  (\<^verbatim>\<open>TRANSMIT_MODE\<close>), \<^verbatim>\<open>wake_on_consumption_only\<close> is set, both deltas are zero and
  \<^verbatim>\<open>wakeups_without_send\<close> is below the threshold, which is the integer quotient
  \<open>1440 div wakeup_per_min\<close>, raised to 1 when it is 0. On a skip the counter goes up
  by one and the previous impulses become the current ones. A manual wake never skips.
  A cycle that skips connects to nothing: it stores the settings and goes to sleep.
\<close>

theorem heartbeat_decision:
  fixes P :: "'z platform_scheme"
  assumes w: "wakeup_per_min s \<noteq> 0"
  shows "wake_on_consumption_check P True wake_mode s data cdata =
           (if skip_expected P wake_mode s cdata then Inr (True, skipped s data)
            else Inr (False, s))
     \<and> (wake_mode = MANUAL_TRANSMIT_MODE P \<and> MANUAL_TRANSMIT_MODE P \<noteq> TRANSMIT_MODE P \<longrightarrow>
          wake_on_consumption_check P True wake_mode s data cdata = Inr (False, s))
     \<and> (getMode E = Some wake_mode \<and> getAttinyData E = Some data
          \<and> wake_mode \<noteq> SETUP_MODE P \<and> load_config E eeprom = (True, loaded)
          \<and> calculate_values E (loaded\<lparr>mode := wake_mode\<rparr>) data = (s, cdata)
          \<and> skip_expected P wake_mode s cdata \<longrightarrow>
          loop P E eeprom net =
            (Sleeps, (skipped s data)\<lparr>config_restart_pending := 0\<rparr>, net,
             [store_config ((skipped s data)\<lparr>config_restart_pending := 0\<rparr>)]
               @ going_to_sleep E))"
proof (intro conjI impI)
  show c: "wake_on_consumption_check P True wake_mode s data cdata =
           (if skip_expected P wake_mode s cdata then Inr (True, skipped s data)
            else Inr (False, s))"
    by (rule check_eq[OF w])
  show "wake_on_consumption_check P True wake_mode s data cdata = Inr (False, s)"
    if "wake_mode = MANUAL_TRANSMIT_MODE P \<and> MANUAL_TRANSMIT_MODE P \<noteq> TRANSMIT_MODE P"
    using that by (auto simp: check_eq[OF w] skip_expected_def)
  assume a: "getMode E = Some wake_mode \<and> getAttinyData E = Some data
          \<and> wake_mode \<noteq> SETUP_MODE P \<and> load_config E eeprom = (True, loaded)
          \<and> calculate_values E (loaded\<lparr>mode := wake_mode\<rparr>) data = (s, cdata)
          \<and> skip_expected P wake_mode s cdata"
  have z: "(if config_restart_pending (skipped s data) \<noteq> 0
            then (skipped s data)\<lparr>config_restart_pending := 0\<rparr>
            else skipped s data) = (skipped s data)\<lparr>config_restart_pending := 0\<rparr>"
    by simp
  show "loop P E eeprom net =
            (Sleeps, (skipped s data)\<lparr>config_restart_pending := 0\<rparr>, net,
             [store_config ((skipped s data)\<lparr>config_restart_pending := 0\<rparr>)]
               @ going_to_sleep E)"
    using a by (simp add: loop_def c Let_def z)
qed

text \<open>
  The theorem with a wake period of 10 minutes, where the threshold is 144: the wake with
  the counter at 143 skips and the counter becomes 144, the wake with the counter at 144
  transmits, and a manual wake with the counter at 143 transmits.
\<close>

theorem heartbeat_decision_witness:
  "wake_on_consumption_check example_platform True 2
      (example_settings\<lparr>wakeups_without_send := 143\<rparr>) example_data \<lparr>delta0 = 0, delta1 = 0\<rparr>
     = Inr (True, example_settings\<lparr>wakeups_without_send := 144\<rparr>)
   \<and> wake_on_consumption_check example_platform True 2
      (example_settings\<lparr>wakeups_without_send := 144\<rparr>) example_data \<lparr>delta0 = 0, delta1 = 0\<rparr>
     = Inr (False, example_settings\<lparr>wakeups_without_send := 144\<rparr>)
   \<and> wake_on_consumption_check example_platform True 3
      (example_settings\<lparr>wakeups_without_send := 143\<rparr>) example_data \<lparr>delta0 = 0, delta1 = 0\<rparr>
     = Inr (False, example_settings\<lparr>wakeups_without_send := 143\<rparr>)
   \<and> loop example_platform example_board (example_settings\<lparr>wakeups_without_send := 143\<rparr>) []
     = (Sleeps, example_settings\<lparr>wakeups_without_send := 144\<rparr>, [],
        [store_config (example_settings\<lparr>wakeups_without_send := 144\<rparr>),
         I2C_setSleep, ESP_deepSleep])"
  using
    heartbeat_decision[where P = example_platform and wake_mode = 2
      and s = "example_settings\<lparr>wakeups_without_send := 143\<rparr>" and data = example_data
      and cdata = "\<lparr>delta0 = 0, delta1 = 0\<rparr>" and E = example_board
      and eeprom = "example_settings\<lparr>wakeups_without_send := 143\<rparr>"
      and loaded = "example_settings\<lparr>wakeups_without_send := 143\<rparr>" and net = "[]"]
    heartbeat_decision[where P = example_platform and wake_mode = 2
      and s = "example_settings\<lparr>wakeups_without_send := 144\<rparr>" and data = example_data
      and cdata = "\<lparr>delta0 = 0, delta1 = 0\<rparr>"]
    heartbeat_decision[where P = example_platform and wake_mode = 3
      and s = "example_settings\<lparr>wakeups_without_send := 143\<rparr>" and data = example_data
      and cdata = "\<lparr>delta0 = 0, delta1 = 0\<rparr>"]
  by (simp add: skip_expected_def skipped_def heartbeat_threshold_def example_platform_def
      example_settings_def example_data_def example_board_def going_to_sleep_def)

text \<open>
  C7 as stated fails: the threshold is not the ceiling of \<open>1440 / wakeup_per_min\<close>.
  With a wake period of 7 minutes the ceiling is 206, yet the scheduled wake with zero
  deltas and the counter at 205 does not skip.
\<close>

theorem heartbeat_threshold_not_ceiling:
  "wake_on_consumption_check example_platform True 2
      (example_settings\<lparr>wakeup_per_min := 7, wakeups_without_send := 205\<rparr>) example_data
      \<lparr>delta0 = 0, delta1 = 0\<rparr>
     = Inr (False, example_settings\<lparr>wakeup_per_min := 7, wakeups_without_send := 205\<rparr>)
   \<and> (205 :: int) < \<lceil>1440 / 7 :: real\<rceil>"
  by (simp add: wake_on_consumption_check_def example_platform_def example_settings_def Let_def)

subsection \<open>Reboot-loop guard\<close>




subsection \<open>Reset of the heartbeat counter\<close>

text \<open>
  C8 fails on the code. A scheduled wake with consumption, \<^verbatim>\<open>wake_on_consumption_only\<close>
  set and the counter at 5: Wi-Fi connects, all three attempts of \<^verbatim>\<open>send_waterius\<close>
  fail, HTTP and MQTT are off. Nothing was transmitted, yet the settings stored at the end
  of the cycle have \<^verbatim>\<open>wakeups_without_send = 0\<close>.
\<close>

theorem counter_reset_after_failed_send:
  "loop example_platform
      (example_board\<lparr>getAttinyData := Some (example_data\<lparr>impulses0 := 153\<rparr>)\<rparr>)
      example_settings []
     = (Sleeps,
        example_settings\<lparr>last_ntp_sync := 1700000001, impulses0_previous := 153,
                          wakeups_without_send := 0\<rparr>,
        [],
        [HTTP_POST ''https://cloud.waterius.ru'' ''{}'', LOG ''Response code is not 200'',
         HTTP_POST ''https://cloud.waterius.ru'' ''{}'', LOG ''Response code is not 200'',
         HTTP_POST ''https://cloud.waterius.ru'' ''{}'', LOG ''Response code is not 200'',
         LOG ''WATR: Failed send data'', LOG ''HTTP: SKIP'', LOG ''MQTT: SKIP'',
         wifi_shutdown, I2C_setWakeUpPeriod 10,
         store_config
           (example_settings\<lparr>last_ntp_sync := 1700000001, impulses0_previous := 153,
                             wakeups_without_send := 0\<rparr>),
         I2C_setSleep, ESP_deepSleep])
   \<and> wakeups_without_send example_settings = 5"
  by (simp add: example_cycle_defs Let_def)

end
